theory Spec2Isabelle
  imports Main "HOL-Library.Multiset"
begin

section \<open>Data model of pkg/k8s/k8s.go\<close>

text \<open>
  The finding unit of the scanner, field for field as the Go struct
  \<^verbatim>\<open>ResourceCheckResult\<close>.
\<close>

record ResourceCheckResult =
  Namespace :: string
  Resource :: string
  Name :: string
  Issue :: string
  AdditionalInfo :: string

text \<open>
  The Kubernetes library types the package reads. Their fields carry a short prefix
  because several of them share a field name (\<^verbatim>\<open>Name\<close>, \<^verbatim>\<open>Group\<close>,
  \<^verbatim>\<open>Resource\<close>) with each other or with \<^typ>\<open>ResourceCheckResult\<close>.
\<close>

record GroupVersion =
  gv_Group :: string
  gv_Version :: string

record GroupVersionResource =
  gvr_Group :: string
  gvr_Version :: string
  gvr_Resource :: string

record APIResource =
  ar_Name :: string
  ar_Namespaced :: bool
  ar_Verbs :: "string list"

record APIResourceList =
  arl_GroupVersion :: string
  arl_APIResources :: "APIResource list"

record OwnerReference =
  ref_APIVersion :: string
  ref_Kind :: string
  ref_Name :: string
  ref_UID :: string

text \<open>
  A deletion timestamp (\<^verbatim>\<open>*metav1.Time\<close>) is only tested against nil and printed
  with \<^verbatim>\<open>%v\<close>; it is represented by its printed form, and nil by \<^const>\<open>None\<close>.
\<close>

type_synonym Time = string

text \<open>
  \<^verbatim>\<open>unstructured.Unstructured\<close>: the schema-agnostic object, seen through the six
  accessors the package calls. Each accessor is total in the library (an absent field
  reads as the empty string, the empty list or nil).
\<close>

record Unstructured =
  GetNamespace :: string
  GetName :: string
  GetKind :: string
  GetFinalizers :: "string list"
  GetDeletionTimestamp :: "Time option"
  GetOwnerReferences :: "OwnerReference list"

text \<open>
  Go \<^verbatim>\<open>error\<close> values. The package observes two things of an error: its message
  (\<^verbatim>\<open>%v\<close>) and whether \<^verbatim>\<open>discovery.IsGroupDiscoveryFailedError\<close> holds of it.
\<close>

datatype error = ErrGroupDiscoveryFailed string | ErrorString string

fun Error :: "error \<Rightarrow> string" where
  "Error (ErrGroupDiscoveryFailed msg) = msg"
| "Error (ErrorString msg) = msg"

fun IsGroupDiscoveryFailedError :: "error \<Rightarrow> bool" where
  "IsGroupDiscoveryFailedError (ErrGroupDiscoveryFailed msg) = True"
| "IsGroupDiscoveryFailedError (ErrorString msg) = False"

text \<open>
  The two API clients. A client is the table of the answers the API server gives to
  the calls the package makes; a call that returns \<^verbatim>\<open>(value, err)\<close> with a non-nil
  error is \<^const>\<open>Inl\<close>. The two discovery calls return the lists and the error side by
  side, because on a partial failure the library returns both.
\<close>

record Clientset =
  ServerPreferredNamespacedResources :: "APIResourceList list \<times> error option"
  ServerPreferredResources :: "APIResourceList list \<times> error option"
  NamespacesList :: "error + string list"

record DynamicInterface =
  ResourceList :: "GroupVersionResource \<Rightarrow> string \<Rightarrow> error + Unstructured list"
  ResourceGet :: "GroupVersionResource \<Rightarrow> string \<Rightarrow> string \<Rightarrow> error + Unstructured"

text \<open>
  Effects. The package writes to a global logger and to standard output and sends
  requests to the API server; none of it changes what a later call reads. The trace is
  the chronological list of these effects, passed through every function.
\<close>

datatype level = DebugLevel | InfoLevel | ErrorLevel

datatype request =
    ReqServerPreferredNamespacedResources
  | ReqServerPreferredResources
  | ReqNamespacesList
  | ReqList GroupVersionResource string
  | ReqGet GroupVersionResource string string

datatype event = Log level string | Printf string | Request request

type_synonym trace = "event list"

section \<open>Formatting\<close>

text \<open>\<^verbatim>\<open>%d\<close> of a length.\<close>

fun fmt_d :: "nat \<Rightarrow> string" where
  "fmt_d n = (if n < 10 then [char_of (48 + n)]
              else fmt_d (n div 10) @ [char_of (48 + n mod 10)])"

declare fmt_d.simps [simp del]

text \<open>\<^verbatim>\<open>%v\<close> of a \<^verbatim>\<open>[]string\<close>: the elements separated by blanks, in brackets.\<close>

fun fmt_v_join :: "string list \<Rightarrow> string" where
  "fmt_v_join [] = []"
| "fmt_v_join [x] = x"
| "fmt_v_join (x # y # ys) = x @ '' '' @ fmt_v_join (y # ys)"

definition fmt_v_strings :: "string list \<Rightarrow> string" where
  "fmt_v_strings xs = ''['' @ fmt_v_join xs @ '']''"

section \<open>schema.GroupVersion\<close>

text \<open>
  \<^verbatim>\<open>schema.ParseGroupVersion\<close> of k8s.io/apimachinery: the empty string and
  \<^verbatim>\<open>"/"\<close> give the empty group and version, a string without a slash is a version
  of the core group, one slash separates group and version, more slashes are an error.
\<close>

definition ParseGroupVersion :: "string \<Rightarrow> error + GroupVersion" where
  "ParseGroupVersion gv =
     (if length gv = 0 \<or> gv = ''/'' then Inr \<lparr>gv_Group = [], gv_Version = []\<rparr>
      else case count_list gv (CHR ''/'') of
          0 \<Rightarrow> Inr \<lparr>gv_Group = [], gv_Version = gv\<rparr>
        | Suc 0 \<Rightarrow> Inr \<lparr>gv_Group = takeWhile (\<lambda>c. c \<noteq> CHR ''/'') gv,
                       gv_Version = drop 1 (dropWhile (\<lambda>c. c \<noteq> CHR ''/'') gv)\<rparr>
        | Suc (Suc k) \<Rightarrow> Inl (ErrorString (''unexpected GroupVersion string: '' @ gv)))"

text \<open>\<^verbatim>\<open>GroupVersion.String\<close>, \<^verbatim>\<open>GroupVersion.WithResource\<close> and
  \<^verbatim>\<open>GroupVersionResource.GroupVersion\<close>.\<close>

definition GroupVersion_String :: "GroupVersion \<Rightarrow> string" where
  "GroupVersion_String gv =
     (if length (gv_Group gv) > 0 then gv_Group gv @ ''/'' @ gv_Version gv else gv_Version gv)"

definition WithResource :: "GroupVersion \<Rightarrow> string \<Rightarrow> GroupVersionResource" where
  "WithResource gv resource =
     \<lparr>gvr_Group = gv_Group gv, gvr_Version = gv_Version gv, gvr_Resource = resource\<rparr>"

definition GroupVersion_of :: "GroupVersionResource \<Rightarrow> GroupVersion" where
  "GroupVersion_of gvr = \<lparr>gv_Group = gvr_Group gvr, gv_Version = gvr_Version gvr\<rparr>"

section \<open>The health checks\<close>

text \<open>\<^verbatim>\<open>%v\<close> of the deletion timestamp, a pointer.\<close>

fun fmt_v_time :: "Time option \<Rightarrow> string" where
  "fmt_v_time None = ''<nil>''"
| "fmt_v_time (Some ts) = ts"

text \<open>\<^verbatim>\<open>CheckStuckFinalizers\<close> (k8s.go, lines 308-332).\<close>

definition CheckStuckFinalizers :: "Unstructured \<Rightarrow> trace \<Rightarrow> ResourceCheckResult list \<times> trace" where
  "CheckStuckFinalizers obj t =
     (if length (GetFinalizers obj) > 0 \<and> GetDeletionTimestamp obj \<noteq> None then
        ([\<lparr>Namespace = GetNamespace obj,
           Resource = GetKind obj,
           Name = GetName obj,
           Issue = ''Stuck finalizer'',
           AdditionalInfo = ''Finalizers: '' @ fmt_v_strings (GetFinalizers obj)
                            @ '', DeletionTimestamp: '' @ fmt_v_time (GetDeletionTimestamp obj)\<rparr>],
         t @ [Log DebugLevel
               (''Detected stuck finalizer on object: Namespace='' @ GetNamespace obj
                @ '', Name='' @ GetName obj
                @ '', Finalizers='' @ fmt_v_strings (GetFinalizers obj)
                @ '', DeletionTimestamp='' @ fmt_v_time (GetDeletionTimestamp obj))])
      else
        ([], t @ [Log DebugLevel
                   (''No stuck finalizers for object: Namespace='' @ GetNamespace obj
                    @ '', Name='' @ GetName obj)]))"

text \<open>
  \<^verbatim>\<open>OwnerExists\<close> (lines 361-376). The owner's kind is passed as the resource name
  of the get, as it is.
\<close>

definition OwnerExists :: "DynamicInterface \<Rightarrow> OwnerReference \<Rightarrow> string \<Rightarrow> trace \<Rightarrow> bool \<times> trace" where
  "OwnerExists dynamicClient owner namespace t =
     (case ParseGroupVersion (ref_APIVersion owner) of
        Inl err \<Rightarrow>
          (False, t @ [Log ErrorLevel (''Error parsing OwnerReference APIVersion: '' @ Error err)])
      | Inr gv \<Rightarrow>
          (let resource = \<lparr>gvr_Group = gv_Group gv, gvr_Version = gv_Version gv,
                            gvr_Resource = ref_Kind owner\<rparr>
           in (case ResourceGet dynamicClient resource namespace (ref_Name owner) of
                 Inl err \<Rightarrow> False
               | Inr found \<Rightarrow> True,
               t @ [Request (ReqGet resource namespace (ref_Name owner))])))"

text \<open>
  \<^verbatim>\<open>CheckInvalidOwnerReferences\<close> (lines 335-358): the loop over the owner
  references, with the slice \<^verbatim>\<open>results\<close> it appends to, and the function.
\<close>

fun CheckInvalidOwnerReferences_loop ::
  "DynamicInterface \<Rightarrow> Unstructured \<Rightarrow> string \<Rightarrow> OwnerReference list
   \<Rightarrow> ResourceCheckResult list \<Rightarrow> trace \<Rightarrow> ResourceCheckResult list \<times> trace" where
  "CheckInvalidOwnerReferences_loop dynamicClient obj namespace [] results t = (results, t)"
| "CheckInvalidOwnerReferences_loop dynamicClient obj namespace (owner # owners) results t =
     (let (exists, t1) = OwnerExists dynamicClient owner namespace t in
      if \<not> exists then
        CheckInvalidOwnerReferences_loop dynamicClient obj namespace owners
          (results @
           [\<lparr>Namespace = GetNamespace obj,
             Resource = GetKind obj,
             Name = GetName obj,
             Issue = ''Invalid ownerReference'',
             AdditionalInfo = ''OwnerReference: APIVersion='' @ ref_APIVersion owner
                              @ '', Kind='' @ ref_Kind owner
                              @ '', Name='' @ ref_Name owner
                              @ '', UID='' @ ref_UID owner\<rparr>])
          (t1 @ [Log DebugLevel
                  (''Detected invalid ownerReference on object '' @ GetNamespace obj
                   @ ''/'' @ GetName obj)])
      else CheckInvalidOwnerReferences_loop dynamicClient obj namespace owners results t1)"

definition CheckInvalidOwnerReferences ::
  "DynamicInterface \<Rightarrow> Unstructured \<Rightarrow> string \<Rightarrow> trace \<Rightarrow> ResourceCheckResult list \<times> trace" where
  "CheckInvalidOwnerReferences dynamicClient obj namespace t =
     CheckInvalidOwnerReferences_loop dynamicClient obj namespace (GetOwnerReferences obj) [] t"

section \<open>Discovery and listing\<close>

text \<open>\<^verbatim>\<open>GetNamespaces\<close> (lines 85-95); the answer of the server is read as the names
  of the items.\<close>

definition GetNamespaces :: "Clientset \<Rightarrow> trace \<Rightarrow> (error + string list) \<times> trace" where
  "GetNamespaces clientset t =
     (case NamespacesList clientset of
        Inl err \<Rightarrow> Inl err
      | Inr names \<Rightarrow> Inr names,
      t @ [Request ReqNamespacesList])"

text \<open>
  \<^verbatim>\<open>GetNamespaceScopedResources\<close> (lines 98-124): the inner loop over the resources
  of one list, the outer loop over the lists, which returns at the first group version
  that does not parse, and the function.
\<close>

fun GetNamespaceScopedResources_inner ::
  "GroupVersion \<Rightarrow> APIResource list \<Rightarrow> GroupVersionResource list \<Rightarrow> GroupVersionResource list" where
  "GetNamespaceScopedResources_inner groupVersion [] resources = resources"
| "GetNamespaceScopedResources_inner groupVersion (apiResource # rest) resources =
     (if ar_Namespaced apiResource then
        GetNamespaceScopedResources_inner groupVersion rest
          (resources @ [WithResource groupVersion (ar_Name apiResource)])
      else GetNamespaceScopedResources_inner groupVersion rest resources)"

fun GetNamespaceScopedResources_loop ::
  "APIResourceList list \<Rightarrow> GroupVersionResource list \<Rightarrow> error + GroupVersionResource list" where
  "GetNamespaceScopedResources_loop [] resources = Inr resources"
| "GetNamespaceScopedResources_loop (apiResourceList # rest) resources =
     (case ParseGroupVersion (arl_GroupVersion apiResourceList) of
        Inl err \<Rightarrow>
          Inl (ErrorString (''error parsing GroupVersion '' @ arl_GroupVersion apiResourceList
                            @ '': '' @ Error err))
      | Inr groupVersion \<Rightarrow>
          GetNamespaceScopedResources_loop rest
            (GetNamespaceScopedResources_inner groupVersion
               (arl_APIResources apiResourceList) resources))"

definition GetNamespaceScopedResources ::
  "Clientset \<Rightarrow> trace \<Rightarrow> (error + GroupVersionResource list) \<times> trace" where
  "GetNamespaceScopedResources clientset t =
     (let (apiResourceLists, err) = ServerPreferredNamespacedResources clientset;
          t1 = t @ [Request ReqServerPreferredNamespacedResources]
      in case err of
           Some e \<Rightarrow>
             if IsGroupDiscoveryFailedError e then
               (GetNamespaceScopedResources_loop apiResourceLists [],
                t1 @ [Printf (''Partial discovery error: '' @ Error e @ [CHR 0x0A])])
             else
               (Inl (ErrorString (''error fetching namespaced resources: '' @ Error e)), t1)
         | None \<Rightarrow> (GetNamespaceScopedResources_loop apiResourceLists [], t1))"

text \<open>\<^verbatim>\<open>GetNamespaceObjects\<close> (lines 181-195); the parameter \<^verbatim>\<open>apiVersion\<close> is
  not used by the source either.\<close>

definition GetNamespaceObjects ::
  "DynamicInterface \<Rightarrow> string \<Rightarrow> GroupVersionResource \<Rightarrow> string \<Rightarrow> trace
   \<Rightarrow> (error + string list) \<times> trace" where
  "GetNamespaceObjects dynamicClient ns resource apiVersion t =
     (case ResourceList dynamicClient resource ns of
        Inl err \<Rightarrow>
          Inl (ErrorString (''error listing objects for resource '' @ gvr_Resource resource
                            @ '' in namespace '' @ ns @ '': '' @ Error err))
      | Inr items \<Rightarrow> Inr (map GetName items),
      t @ [Request (ReqList resource ns)])"

text \<open>
  \<^verbatim>\<open>resourceSupportsList\<close> (lines 282-305): the loop over the verbs, the loop over
  the resources of one list (\<^const>\<open>None\<close> when it ends without a return), the loop over
  the lists, and the function.
\<close>

fun resourceSupportsList_verbs :: "string list \<Rightarrow> bool" where
  "resourceSupportsList_verbs [] = False"
| "resourceSupportsList_verbs (verb # verbs) =
     (if verb = ''list'' then True else resourceSupportsList_verbs verbs)"

fun resourceSupportsList_resources :: "APIResource list \<Rightarrow> GroupVersionResource \<Rightarrow> bool option" where
  "resourceSupportsList_resources [] resource = None"
| "resourceSupportsList_resources (apiResource # rest) resource =
     (if ar_Name apiResource = gvr_Resource resource
      then Some (resourceSupportsList_verbs (ar_Verbs apiResource))
      else resourceSupportsList_resources rest resource)"

fun resourceSupportsList_lists :: "APIResourceList list \<Rightarrow> GroupVersionResource \<Rightarrow> bool" where
  "resourceSupportsList_lists [] resource = False"
| "resourceSupportsList_lists (apiResourceList # rest) resource =
     (if arl_GroupVersion apiResourceList = GroupVersion_String (GroupVersion_of resource) then
        (case resourceSupportsList_resources (arl_APIResources apiResourceList) resource of
           Some answer \<Rightarrow> answer
         | None \<Rightarrow> resourceSupportsList_lists rest resource)
      else resourceSupportsList_lists rest resource)"

definition resourceSupportsList :: "Clientset \<Rightarrow> GroupVersionResource \<Rightarrow> trace \<Rightarrow> bool \<times> trace" where
  "resourceSupportsList clientset resource t =
     (let (apiResourceLists, err) = ServerPreferredResources clientset;
          t1 = t @ [Request ReqServerPreferredResources]
      in case err of
           Some e \<Rightarrow>
             (False,
              t1 @ [Log ErrorLevel
                     (''Error fetching API resources to check for '' @ [CHR 0x27] @ ''list''
                      @ [CHR 0x27] @ '' support: '' @ Error e)])
         | None \<Rightarrow> (resourceSupportsList_lists apiResourceLists resource, t1))"

section \<open>The scan\<close>

text \<open>
  \<^verbatim>\<open>ScanNamespaceResources\<close> (lines 208-279). The three nested loops are three
  functions, innermost first; each takes the slice \<^verbatim>\<open>results\<close> gathered so far
  and returns it extended. A \<^verbatim>\<open>continue\<close> is the recursive call on the rest with
  \<^verbatim>\<open>results\<close> as it was.
\<close>

fun ScanNamespaceResources_objects ::
  "DynamicInterface \<Rightarrow> string \<Rightarrow> GroupVersionResource \<Rightarrow> string list
   \<Rightarrow> ResourceCheckResult list \<Rightarrow> trace \<Rightarrow> ResourceCheckResult list \<times> trace" where
  "ScanNamespaceResources_objects dynamicClient ns resource [] results t = (results, t)"
| "ScanNamespaceResources_objects dynamicClient ns resource (objectName # objects) results t =
     (let t1 = t @ [Log DebugLevel
                     (''Checking object: '' @ ns @ ''/'' @ objectName @ '' of resource ''
                      @ gvr_Resource resource),
                    Request (ReqGet resource ns objectName)]
      in case ResourceGet dynamicClient resource ns objectName of
           Inl err \<Rightarrow>
             ScanNamespaceResources_objects dynamicClient ns resource objects results
               (t1 @ [Log ErrorLevel
                       (''Error fetching object '' @ ns @ ''/'' @ objectName @ '' of resource ''
                        @ gvr_Resource resource @ '': '' @ Error err)])
         | Inr obj \<Rightarrow>
             (let (finalizerIssues, t2) = CheckStuckFinalizers obj t1;
                  t3 = (if length finalizerIssues > 0 then
                          t2 @ [Log ErrorLevel
                                 (''Critical issue: Detected '' @ fmt_d (length finalizerIssues)
                                  @ '' stuck finalizers for object: '' @ ns @ ''/'' @ objectName)]
                        else t2);
                  results1 = results @ finalizerIssues;
                  (ownerRefIssues, t4) = CheckInvalidOwnerReferences dynamicClient obj ns t3
              in if length ownerRefIssues > 0 then
                   ScanNamespaceResources_objects dynamicClient ns resource objects
                     (results1 @ ownerRefIssues)
                     (t4 @ [Log ErrorLevel
                             (''Critical issue: Detected '' @ fmt_d (length ownerRefIssues)
                              @ '' invalid ownerReferences for object: '' @ ns @ ''/''
                              @ objectName)])
                 else
                   ScanNamespaceResources_objects dynamicClient ns resource objects results1 t4))"

fun ScanNamespaceResources_resources ::
  "Clientset \<Rightarrow> DynamicInterface \<Rightarrow> string \<Rightarrow> GroupVersionResource list
   \<Rightarrow> ResourceCheckResult list \<Rightarrow> trace \<Rightarrow> ResourceCheckResult list \<times> trace" where
  "ScanNamespaceResources_resources clientset dynamicClient ns [] results t = (results, t)"
| "ScanNamespaceResources_resources clientset dynamicClient ns (resource # resources) results t =
     (let (supported, t1) = resourceSupportsList clientset resource t
      in if \<not> supported then
           ScanNamespaceResources_resources clientset dynamicClient ns resources results
             (t1 @ [Log DebugLevel
                     (''Skipping resource '' @ gvr_Resource resource
                      @ '' as it does not support '' @ [CHR 0x27] @ ''list'' @ [CHR 0x27])])
         else
           (let t2 = t1 @ [Log DebugLevel
                            (''Processing resource: '' @ gvr_Resource resource
                             @ '' in namespace: '' @ ns)];
                (objects, t3) = GetNamespaceObjects dynamicClient ns resource
                                  (GroupVersion_String (GroupVersion_of resource)) t2
            in case objects of
                 Inl err \<Rightarrow>
                   ScanNamespaceResources_resources clientset dynamicClient ns resources results
                     (t3 @ [Log ErrorLevel
                             (''Error fetching objects for resource '' @ gvr_Resource resource
                              @ '' in namespace '' @ ns @ '': '' @ Error err)])
               | Inr objectNames \<Rightarrow>
                   (let t4 = t3 @ [Log DebugLevel
                                    (''Found '' @ fmt_d (length objectNames)
                                     @ '' objects for resource '' @ gvr_Resource resource
                                     @ '' in namespace '' @ ns)];
                        (results1, t5) = ScanNamespaceResources_objects dynamicClient ns resource
                                           objectNames results t4
                    in ScanNamespaceResources_resources clientset dynamicClient ns resources
                         results1 t5)))"

fun ScanNamespaceResources_namespaces ::
  "Clientset \<Rightarrow> DynamicInterface \<Rightarrow> string list \<Rightarrow> GroupVersionResource list
   \<Rightarrow> ResourceCheckResult list \<Rightarrow> trace \<Rightarrow> ResourceCheckResult list \<times> trace" where
  "ScanNamespaceResources_namespaces clientset dynamicClient [] resources results t = (results, t)"
| "ScanNamespaceResources_namespaces clientset dynamicClient (ns # namespaces) resources results t =
     (let t1 = t @ [Log DebugLevel (''Processing namespace: '' @ ns)];
          (results1, t2) = ScanNamespaceResources_resources clientset dynamicClient ns resources
                             results t1
      in ScanNamespaceResources_namespaces clientset dynamicClient namespaces resources results1 t2)"

definition ScanNamespaceResources ::
  "Clientset \<Rightarrow> DynamicInterface \<Rightarrow> trace \<Rightarrow> (error + ResourceCheckResult list) \<times> trace" where
  "ScanNamespaceResources clientset dynamicClient t =
     (let t1 = t @ [Log DebugLevel ''Fetching namespace-scoped resources...''];
          (discovered, t2) = GetNamespaceScopedResources clientset t1
      in case discovered of
           Inl err \<Rightarrow>
             (Inl err,
              t2 @ [Log ErrorLevel (''Error fetching namespace-scoped resources: '' @ Error err)])
         | Inr resources \<Rightarrow>
             (let t3 = t2 @ [Log DebugLevel
                              (''Found '' @ fmt_d (length resources)
                               @ '' namespace-scoped resources''),
                             Log DebugLevel ''Fetching namespaces...''];
                  (enumerated, t4) = GetNamespaces clientset t3
              in case enumerated of
                   Inl err \<Rightarrow>
                     (Inl err, t4 @ [Log ErrorLevel (''Error fetching namespaces: '' @ Error err)])
                 | Inr namespaces \<Rightarrow>
                     (let t5 = t4 @ [Log DebugLevel
                                      (''Found '' @ fmt_d (length namespaces) @ '' namespaces'')];
                          (results, t6) = ScanNamespaceResources_namespaces clientset dynamicClient
                                            namespaces resources [] t5
                      in (Inr results,
                          t6 @ [Log InfoLevel
                                 (''Scanning completed: Found '' @ fmt_d (length results)
                                  @ '' issues'')]))))"

section \<open>What the functions return, without the trace\<close>

text \<open>
  The two struct literals of the health checks, named. The first is the finding of
  \<^const>\<open>CheckStuckFinalizers\<close>, the second the finding of
  \<^const>\<open>CheckInvalidOwnerReferences_loop\<close> for one owner reference.
\<close>

definition stuckFinalizerFinding :: "Unstructured \<Rightarrow> ResourceCheckResult" where
  "stuckFinalizerFinding obj =
     \<lparr>Namespace = GetNamespace obj,
      Resource = GetKind obj,
      Name = GetName obj,
      Issue = ''Stuck finalizer'',
      AdditionalInfo = ''Finalizers: '' @ fmt_v_strings (GetFinalizers obj)
                       @ '', DeletionTimestamp: '' @ fmt_v_time (GetDeletionTimestamp obj)\<rparr>"

definition invalidOwnerFinding :: "Unstructured \<Rightarrow> OwnerReference \<Rightarrow> ResourceCheckResult" where
  "invalidOwnerFinding obj owner =
     \<lparr>Namespace = GetNamespace obj,
      Resource = GetKind obj,
      Name = GetName obj,
      Issue = ''Invalid ownerReference'',
      AdditionalInfo = ''OwnerReference: APIVersion='' @ ref_APIVersion owner
                       @ '', Kind='' @ ref_Kind owner
                       @ '', Name='' @ ref_Name owner
                       @ '', UID='' @ ref_UID owner\<rparr>"

text \<open>
  The value each function returns, as a function of the answers of the server alone.
  The lemmas of the next sections show that the functions above return these values
  from every trace.
\<close>

definition stuck_finalizer_findings :: "Unstructured \<Rightarrow> ResourceCheckResult list" where
  "stuck_finalizer_findings obj =
     (if GetFinalizers obj \<noteq> [] \<and> GetDeletionTimestamp obj \<noteq> None
      then [stuckFinalizerFinding obj] else [])"

definition get_succeeds ::
  "DynamicInterface \<Rightarrow> GroupVersionResource \<Rightarrow> string \<Rightarrow> string \<Rightarrow> bool" where
  "get_succeeds dc resource ns name =
     (case ResourceGet dc resource ns name of Inl err \<Rightarrow> False | Inr found \<Rightarrow> True)"

definition owner_resolves :: "DynamicInterface \<Rightarrow> OwnerReference \<Rightarrow> string \<Rightarrow> bool" where
  "owner_resolves dc owner ns =
     (case ParseGroupVersion (ref_APIVersion owner) of
        Inl err \<Rightarrow> False
      | Inr gv \<Rightarrow>
          get_succeeds dc
            \<lparr>gvr_Group = gv_Group gv, gvr_Version = gv_Version gv, gvr_Resource = ref_Kind owner\<rparr>
            ns (ref_Name owner))"

definition invalid_owner_findings ::
  "DynamicInterface \<Rightarrow> Unstructured \<Rightarrow> string \<Rightarrow> ResourceCheckResult list" where
  "invalid_owner_findings dc obj ns =
     map (invalidOwnerFinding obj)
       (filter (\<lambda>owner. \<not> owner_resolves dc owner ns) (GetOwnerReferences obj))"

definition passes_list_gate :: "Clientset \<Rightarrow> GroupVersionResource \<Rightarrow> bool" where
  "passes_list_gate cs resource =
     (snd (ServerPreferredResources cs) = None \<and>
      resourceSupportsList_lists (fst (ServerPreferredResources cs)) resource)"

definition object_findings ::
  "DynamicInterface \<Rightarrow> string \<Rightarrow> Unstructured \<Rightarrow> ResourceCheckResult list" where
  "object_findings dc ns obj = stuck_finalizer_findings obj @ invalid_owner_findings dc obj ns"

definition got_objects ::
  "DynamicInterface \<Rightarrow> string \<Rightarrow> GroupVersionResource \<Rightarrow> string list \<Rightarrow> Unstructured list" where
  "got_objects dc ns resource names =
     concat (map (\<lambda>name. case ResourceGet dc resource ns name of
                            Inl err \<Rightarrow> [] | Inr obj \<Rightarrow> [obj]) names)"

definition fetched_objects ::
  "DynamicInterface \<Rightarrow> string \<Rightarrow> GroupVersionResource \<Rightarrow> Unstructured list" where
  "fetched_objects dc ns resource =
     (case ResourceList dc resource ns of
        Inl err \<Rightarrow> []
      | Inr items \<Rightarrow> got_objects dc ns resource (map GetName items))"

definition resource_findings ::
  "Clientset \<Rightarrow> DynamicInterface \<Rightarrow> string \<Rightarrow> GroupVersionResource \<Rightarrow> ResourceCheckResult list" where
  "resource_findings cs dc ns resource =
     (if passes_list_gate cs resource
      then concat (map (object_findings dc ns) (fetched_objects dc ns resource)) else [])"

definition namespace_findings ::
  "Clientset \<Rightarrow> DynamicInterface \<Rightarrow> GroupVersionResource list \<Rightarrow> string \<Rightarrow> ResourceCheckResult list" where
  "namespace_findings cs dc resources ns = concat (map (resource_findings cs dc ns) resources)"

text \<open>The namespaced types of one discovered list, and of all of them.\<close>

definition namespaced_types_of :: "APIResourceList \<Rightarrow> GroupVersionResource list" where
  "namespaced_types_of apiResourceList =
     (case ParseGroupVersion (arl_GroupVersion apiResourceList) of
        Inl err \<Rightarrow> []
      | Inr gv \<Rightarrow>
          map (\<lambda>apiResource. WithResource gv (ar_Name apiResource))
            (filter ar_Namespaced (arl_APIResources apiResourceList)))"

definition namespaced_types :: "APIResourceList list \<Rightarrow> GroupVersionResource list" where
  "namespaced_types apiResourceLists = concat (map namespaced_types_of apiResourceLists)"

definition parses :: "string \<Rightarrow> bool" where
  "parses gv = (case ParseGroupVersion gv of Inl err \<Rightarrow> False | Inr groupVersion \<Rightarrow> True)"

definition discovered_types :: "Clientset \<Rightarrow> error + GroupVersionResource list" where
  "discovered_types cs =
     (case snd (ServerPreferredNamespacedResources cs) of
        Some e \<Rightarrow>
          if IsGroupDiscoveryFailedError e
          then GetNamespaceScopedResources_loop (fst (ServerPreferredNamespacedResources cs)) []
          else Inl (ErrorString (''error fetching namespaced resources: '' @ Error e))
      | None \<Rightarrow> GetNamespaceScopedResources_loop (fst (ServerPreferredNamespacedResources cs)) [])"

definition scan_result :: "Clientset \<Rightarrow> DynamicInterface \<Rightarrow> error + ResourceCheckResult list" where
  "scan_result cs dc =
     (case discovered_types cs of
        Inl err \<Rightarrow> Inl err
      | Inr resources \<Rightarrow>
          (case NamespacesList cs of
             Inl err \<Rightarrow> Inl err
           | Inr namespaces \<Rightarrow>
               Inr (concat (map (namespace_findings cs dc resources) namespaces))))"

section \<open>The aggregate result, in the words of the specification\<close>

text \<open>
  The findings of the health checks for one object, the objects fetched for one
  namespace and resource type, the fetched objects in traversal order (namespace, then
  resource type among those that pass the list gate, then object name), and the
  concatenation of the findings of all of them.
\<close>

definition health_checks ::
  "DynamicInterface \<Rightarrow> string \<Rightarrow> Unstructured \<Rightarrow> ResourceCheckResult list" where
  "health_checks dc ns obj =
     fst (CheckStuckFinalizers obj []) @ fst (CheckInvalidOwnerReferences dc obj ns [])"

definition supports_list :: "Clientset \<Rightarrow> GroupVersionResource \<Rightarrow> bool" where
  "supports_list cs resource = fst (resourceSupportsList cs resource [])"

definition traversal ::
  "Clientset \<Rightarrow> DynamicInterface \<Rightarrow> string list \<Rightarrow> GroupVersionResource list
   \<Rightarrow> (string \<times> Unstructured) list" where
  "traversal cs dc namespaces resources =
     concat (map (\<lambda>ns.
       concat (map (\<lambda>resource. map (Pair ns) (fetched_objects dc ns resource))
                 (filter (supports_list cs) resources)))
       namespaces)"

definition concatenated_findings ::
  "Clientset \<Rightarrow> DynamicInterface \<Rightarrow> string list \<Rightarrow> GroupVersionResource list
   \<Rightarrow> ResourceCheckResult list" where
  "concatenated_findings cs dc namespaces resources =
     concat (map (\<lambda>(ns, obj). health_checks dc ns obj) (traversal cs dc namespaces resources))"

text \<open>The multiset of the findings of a scan; a scan that fails has none.\<close>

definition findings_mset :: "error + ResourceCheckResult list \<Rightarrow> ResourceCheckResult multiset" where
  "findings_mset outcome = (case outcome of Inl err \<Rightarrow> {#} | Inr results \<Rightarrow> mset results)"

section \<open>The list gate, in the words of the specification\<close>

text \<open>
  The verbs a catalog reports for a resource type: those of the first entry with the
  name of the type in a list of its group version.
\<close>

fun catalog_verbs :: "APIResourceList list \<Rightarrow> GroupVersionResource \<Rightarrow> string list option" where
  "catalog_verbs [] resource = None"
| "catalog_verbs (apiResourceList # rest) resource =
     (if arl_GroupVersion apiResourceList = GroupVersion_String (GroupVersion_of resource) then
        (case find (\<lambda>apiResource. ar_Name apiResource = gvr_Resource resource)
                (arl_APIResources apiResourceList) of
           Some apiResource \<Rightarrow> Some (ar_Verbs apiResource)
         | None \<Rightarrow> catalog_verbs rest resource)
      else catalog_verbs rest resource)"

definition list_among_verbs :: "APIResourceList list \<Rightarrow> GroupVersionResource \<Rightarrow> bool" where
  "list_among_verbs catalog resource =
     (case catalog_verbs catalog resource of
        None \<Rightarrow> False
      | Some verbs \<Rightarrow> ''list'' \<in> set verbs)"

section \<open>Requests for objects\<close>

text \<open>The events of a trace that list or get objects through the dynamic client.\<close>

fun is_fetch :: "event \<Rightarrow> bool" where
  "is_fetch (Request (ReqList resource ns)) = True"
| "is_fetch (Request (ReqGet resource ns name)) = True"
| "is_fetch other = False"

section \<open>An example cluster\<close>

text \<open>
  Two namespaces and three namespaced resource types; \<^verbatim>\<open>bindings\<close> cannot be
  listed. Namespace \<^verbatim>\<open>kube-system\<close> refuses every listing. Namespace \<^verbatim>\<open>app\<close>
  lists three pods, of which \<^verbatim>\<open>p0\<close> is gone by the time it is fetched,
  \<^verbatim>\<open>p1\<close> is being deleted with two finalizers left and \<^verbatim>\<open>p2\<close> is being
  deleted with none, and one replica set whose owner \<^verbatim>\<open>d1\<close> does not exist. A get
  of \<^verbatim>\<open>d2\<close> under the resource name \<^verbatim>\<open>Deployment\<close> is answered.
\<close>

definition pods :: GroupVersionResource where
  "pods = \<lparr>gvr_Group = [], gvr_Version = ''v1'', gvr_Resource = ''pods''\<rparr>"

definition bindings :: GroupVersionResource where
  "bindings = \<lparr>gvr_Group = [], gvr_Version = ''v1'', gvr_Resource = ''bindings''\<rparr>"

definition replicasets :: GroupVersionResource where
  "replicasets = \<lparr>gvr_Group = ''apps'', gvr_Version = ''v1'', gvr_Resource = ''replicasets''\<rparr>"

definition example_catalog :: "APIResourceList list" where
  "example_catalog =
     [\<lparr>arl_GroupVersion = ''v1'',
       arl_APIResources =
         [\<lparr>ar_Name = ''pods'', ar_Namespaced = True, ar_Verbs = [''get'', ''list'', ''watch'']\<rparr>,
          \<lparr>ar_Name = ''bindings'', ar_Namespaced = True, ar_Verbs = [''create'']\<rparr>,
          \<lparr>ar_Name = ''nodes'', ar_Namespaced = False, ar_Verbs = [''get'', ''list'']\<rparr>]\<rparr>,
      \<lparr>arl_GroupVersion = ''apps/v1'',
       arl_APIResources =
         [\<lparr>ar_Name = ''replicasets'', ar_Namespaced = True, ar_Verbs = [''get'', ''list'']\<rparr>]\<rparr>]"

text \<open>The answer to the discovery of the namespaced types leaves the nodes out.\<close>

definition example_namespaced_catalog :: "APIResourceList list" where
  "example_namespaced_catalog =
     [\<lparr>arl_GroupVersion = ''v1'',
       arl_APIResources =
         [\<lparr>ar_Name = ''pods'', ar_Namespaced = True, ar_Verbs = [''get'', ''list'', ''watch'']\<rparr>,
          \<lparr>ar_Name = ''bindings'', ar_Namespaced = True, ar_Verbs = [''create'']\<rparr>]\<rparr>,
      \<lparr>arl_GroupVersion = ''apps/v1'',
       arl_APIResources =
         [\<lparr>ar_Name = ''replicasets'', ar_Namespaced = True, ar_Verbs = [''get'', ''list'']\<rparr>]\<rparr>]"

definition owner_d1 :: OwnerReference where
  "owner_d1 = \<lparr>ref_APIVersion = ''apps/v1'', ref_Kind = ''Deployment'', ref_Name = ''d1'',
               ref_UID = ''X''\<rparr>"

definition owner_d2 :: OwnerReference where
  "owner_d2 = \<lparr>ref_APIVersion = ''apps/v1'', ref_Kind = ''Deployment'', ref_Name = ''d2'',
               ref_UID = ''Y''\<rparr>"

definition owner_malformed :: OwnerReference where
  "owner_malformed = \<lparr>ref_APIVersion = ''apps/v1/beta'', ref_Kind = ''Deployment'',
                      ref_Name = ''d2'', ref_UID = ''Z''\<rparr>"

definition pod_p0 :: Unstructured where
  "pod_p0 = \<lparr>GetNamespace = ''app'', GetName = ''p0'', GetKind = ''Pod'', GetFinalizers = [],
             GetDeletionTimestamp = None, GetOwnerReferences = []\<rparr>"

definition pod_p1 :: Unstructured where
  "pod_p1 = \<lparr>GetNamespace = ''app'', GetName = ''p1'', GetKind = ''Pod'',
             GetFinalizers = [''a.io/cleanup'', ''b.io/hold''],
             GetDeletionTimestamp = Some ''2024-05-01 10:00:00 +0000 UTC'',
             GetOwnerReferences = []\<rparr>"

definition pod_p2 :: Unstructured where
  "pod_p2 = \<lparr>GetNamespace = ''app'', GetName = ''p2'', GetKind = ''Pod'', GetFinalizers = [],
             GetDeletionTimestamp = Some ''2024-05-01 10:00:00 +0000 UTC'',
             GetOwnerReferences = []\<rparr>"

definition replicaset_rs1 :: Unstructured where
  "replicaset_rs1 = \<lparr>GetNamespace = ''app'', GetName = ''rs1'', GetKind = ''ReplicaSet'',
                     GetFinalizers = [], GetDeletionTimestamp = None,
                     GetOwnerReferences = [owner_d1]\<rparr>"

definition deployment_d2 :: Unstructured where
  "deployment_d2 = \<lparr>GetNamespace = ''app'', GetName = ''d2'', GetKind = ''Deployment'',
                    GetFinalizers = [], GetDeletionTimestamp = None, GetOwnerReferences = []\<rparr>"

definition orphan :: Unstructured where
  "orphan = \<lparr>GetNamespace = ''app'', GetName = ''orphan'', GetKind = ''ConfigMap'',
             GetFinalizers = [], GetDeletionTimestamp = None,
             GetOwnerReferences = [owner_d1, owner_d2, owner_malformed, owner_d1]\<rparr>"

definition example_clientset :: Clientset where
  "example_clientset =
     \<lparr>ServerPreferredNamespacedResources = (example_namespaced_catalog, None),
      ServerPreferredResources = (example_catalog, None),
      NamespacesList = Inr [''kube-system'', ''app'']\<rparr>"

definition example_dynamic :: DynamicInterface where
  "example_dynamic =
     \<lparr>ResourceList = (\<lambda>resource ns.
        if ns = ''app'' \<and> resource = pods then Inr [pod_p0, pod_p1, pod_p2]
        else if ns = ''app'' \<and> resource = replicasets then Inr [replicaset_rs1]
        else Inl (ErrorString ''forbidden'')),
      ResourceGet = (\<lambda>resource ns name.
        if ns = ''app'' \<and> resource = pods \<and> name = ''p1'' then Inr pod_p1
        else if ns = ''app'' \<and> resource = pods \<and> name = ''p2'' then Inr pod_p2
        else if ns = ''app'' \<and> resource = replicasets \<and> name = ''rs1'' then Inr replicaset_rs1
        else if ns = ''app'' \<and> name = ''d2''
                \<and> resource = \<lparr>gvr_Group = ''apps'', gvr_Version = ''v1'',
                               gvr_Resource = ''Deployment''\<rparr> then Inr deployment_d2
        else Inl (ErrorString ''not found''))\<rparr>"

text \<open>
  The same cluster while one aggregated API group does not answer: both discovery
  calls return the lists of the groups that answered together with the group
  discovery error.
\<close>

definition partial_error :: error where
  "partial_error = ErrGroupDiscoveryFailed ''unable to retrieve the complete list of server APIs''"

definition partial_clientset :: Clientset where
  "partial_clientset =
     \<lparr>ServerPreferredNamespacedResources = (example_namespaced_catalog, Some partial_error),
      ServerPreferredResources = (example_catalog, Some partial_error),
      NamespacesList = Inr [''kube-system'', ''app'']\<rparr>"

text \<open>
  The same cluster while no API group answers the discovery of its resources: both
  discovery calls return no list at all, together with the group discovery error.
\<close>

definition all_failed_clientset :: Clientset where
  "all_failed_clientset =
     \<lparr>ServerPreferredNamespacedResources = ([], Some partial_error),
      ServerPreferredResources = ([], Some partial_error),
      NamespacesList = Inr [''kube-system'', ''app'']\<rparr>"

section \<open>Every function returns its value from every trace\<close>

text \<open>
  Each function appends its own effects to the trace it is given and returns a value
  that does not depend on that trace.
\<close>

lemma CheckStuckFinalizers_run:
  "\<exists>es. \<forall>t. CheckStuckFinalizers obj t = (stuck_finalizer_findings obj, t @ es)"
  by (simp add: CheckStuckFinalizers_def stuck_finalizer_findings_def stuckFinalizerFinding_def)

lemma OwnerExists_run:
  "\<exists>es. \<forall>t. OwnerExists dc owner ns t = (owner_resolves dc owner ns, t @ es)"
  by (simp add: OwnerExists_def owner_resolves_def get_succeeds_def Let_def split: sum.splits)

lemma resourceSupportsList_run:
  "\<exists>es. \<forall>t. resourceSupportsList cs resource t = (passes_list_gate cs resource, t @ es)"
proof (cases "ServerPreferredResources cs")
  case (Pair apiResourceLists err)
  then show ?thesis
    by (cases err) (simp_all add: resourceSupportsList_def passes_list_gate_def)
qed

lemma CheckInvalidOwnerReferences_loop_run:
  "\<exists>es. \<forall>results t. CheckInvalidOwnerReferences_loop dc obj ns owners results t =
     (results @ map (invalidOwnerFinding obj)
                  (filter (\<lambda>owner. \<not> owner_resolves dc owner ns) owners),
      t @ es)"
proof (induction owners)
  case Nil
  show ?case by simp
next
  case (Cons owner owners)
  then obtain es where IH: "\<And>results t. CheckInvalidOwnerReferences_loop dc obj ns owners results t =
     (results @ map (invalidOwnerFinding obj)
                  (filter (\<lambda>owner. \<not> owner_resolves dc owner ns) owners),
      t @ es)" by blast
  obtain es1 where oe: "\<And>t. OwnerExists dc owner ns t = (owner_resolves dc owner ns, t @ es1)"
    using OwnerExists_run by blast
  show ?case
  proof (cases "owner_resolves dc owner ns")
    case True
    then show ?thesis
      by (intro exI [of _ "es1 @ es"]) (simp add: oe IH)
  next
    case False
    then show ?thesis
      by (intro exI [of _ "es1 @
            Log DebugLevel (''Detected invalid ownerReference on object '' @ GetNamespace obj
                   @ ''/'' @ GetName obj) # es"])
         (simp add: oe IH invalidOwnerFinding_def)
  qed
qed

lemma CheckInvalidOwnerReferences_run:
  "\<exists>es. \<forall>t. CheckInvalidOwnerReferences dc obj ns t = (invalid_owner_findings dc obj ns, t @ es)"
  using CheckInvalidOwnerReferences_loop_run [of dc obj ns "GetOwnerReferences obj"]
  by (auto simp add: CheckInvalidOwnerReferences_def invalid_owner_findings_def)

lemma GetNamespaceObjects_run:
  "\<exists>es. \<forall>t. GetNamespaceObjects dc ns resource v t =
     (case ResourceList dc resource ns of
        Inl err \<Rightarrow>
          Inl (ErrorString (''error listing objects for resource '' @ gvr_Resource resource
                            @ '' in namespace '' @ ns @ '': '' @ Error err))
      | Inr items \<Rightarrow> Inr (map GetName items), t @ es)"
  by (simp add: GetNamespaceObjects_def)

lemma got_objects_Nil: "got_objects dc ns resource [] = []"
  by (simp add: got_objects_def)

lemma got_objects_Cons:
  "got_objects dc ns resource (name # names) =
     (case ResourceGet dc resource ns name of Inl err \<Rightarrow> [] | Inr obj \<Rightarrow> [obj])
     @ got_objects dc ns resource names"
  by (simp add: got_objects_def)

lemma ScanNamespaceResources_objects_run:
  "\<exists>es. \<forall>results t. ScanNamespaceResources_objects dc ns resource names results t =
     (results @ concat (map (object_findings dc ns) (got_objects dc ns resource names)), t @ es)"
proof (induction names)
  case Nil
  show ?case by (simp add: got_objects_Nil)
next
  case (Cons name names)
  then obtain es where IH: "\<And>results t.
      ScanNamespaceResources_objects dc ns resource names results t =
        (results @ concat (map (object_findings dc ns) (got_objects dc ns resource names)), t @ es)"
    by blast
  show ?case
  proof (cases "ResourceGet dc resource ns name")
    case (Inl err)
    then show ?thesis
      by (intro exI [of _ "[Log DebugLevel
                     (''Checking object: '' @ ns @ ''/'' @ name @ '' of resource ''
                      @ gvr_Resource resource),
                    Request (ReqGet resource ns name),
                    Log ErrorLevel
                       (''Error fetching object '' @ ns @ ''/'' @ name @ '' of resource ''
                        @ gvr_Resource resource @ '': '' @ Error err)] @ es"])
         (simp add: IH got_objects_Cons)
  next
    case (Inr obj)
    obtain es1 where sf: "\<And>t. CheckStuckFinalizers obj t = (stuck_finalizer_findings obj, t @ es1)"
      using CheckStuckFinalizers_run by blast
    obtain es2 where io: "\<And>t. CheckInvalidOwnerReferences dc obj ns t =
        (invalid_owner_findings dc obj ns, t @ es2)"
      using CheckInvalidOwnerReferences_run by blast
    define l1 where "l1 = (if length (stuck_finalizer_findings obj) > 0 then
         [Log ErrorLevel (''Critical issue: Detected '' @ fmt_d (length (stuck_finalizer_findings obj))
                                  @ '' stuck finalizers for object: '' @ ns @ ''/'' @ name)] else [])"
    define l2 where "l2 = (if length (invalid_owner_findings dc obj ns) > 0 then
         [Log ErrorLevel (''Critical issue: Detected '' @ fmt_d (length (invalid_owner_findings dc obj ns))
                              @ '' invalid ownerReferences for object: '' @ ns @ ''/''
                              @ name)] else [])"
    show ?thesis
      by (intro exI [of _ "[Log DebugLevel
                     (''Checking object: '' @ ns @ ''/'' @ name @ '' of resource ''
                      @ gvr_Resource resource),
                    Request (ReqGet resource ns name)] @ es1 @ l1 @ es2 @ l2 @ es"])
         (simp add: Inr IH got_objects_Cons sf io l1_def l2_def object_findings_def [of dc ns obj] Let_def)
  qed
qed

lemma ScanNamespaceResources_resources_run:
  "\<exists>es. \<forall>results t. ScanNamespaceResources_resources cs dc ns resources results t =
     (results @ namespace_findings cs dc resources ns, t @ es)"
proof (induction resources)
  case Nil
  show ?case by (simp add: namespace_findings_def)
next
  case (Cons resource resources)
  then obtain es where IH: "\<And>results t.
      ScanNamespaceResources_resources cs dc ns resources results t =
        (results @ namespace_findings cs dc resources ns, t @ es)"
    by blast
  obtain es1 where gate: "\<And>t. resourceSupportsList cs resource t =
      (passes_list_gate cs resource, t @ es1)"
    using resourceSupportsList_run by blast
  have unfold: "namespace_findings cs dc (resource # resources) ns =
      resource_findings cs dc ns resource @ namespace_findings cs dc resources ns"
    by (simp add: namespace_findings_def)
  show ?case
  proof (cases "passes_list_gate cs resource")
    case False
    then show ?thesis
      by (intro exI [of _ "es1 @ [Log DebugLevel
                     (''Skipping resource '' @ gvr_Resource resource
                      @ '' as it does not support '' @ [CHR 0x27] @ ''list'' @ [CHR 0x27])] @ es"])
         (simp add: IH gate unfold resource_findings_def [of cs dc ns resource])
  next
    case True
    obtain es2 where ls: "\<And>t. GetNamespaceObjects dc ns resource
          (GroupVersion_String (GroupVersion_of resource)) t =
        (case ResourceList dc resource ns of
           Inl err \<Rightarrow>
             Inl (ErrorString (''error listing objects for resource '' @ gvr_Resource resource
                               @ '' in namespace '' @ ns @ '': '' @ Error err))
         | Inr items \<Rightarrow> Inr (map GetName items), t @ es2)"
      using GetNamespaceObjects_run by blast
    show ?thesis
    proof (cases "ResourceList dc resource ns")
      case (Inl err)
      show ?thesis
        by (intro exI [of _ "es1 @ [Log DebugLevel
                            (''Processing resource: '' @ gvr_Resource resource
                             @ '' in namespace: '' @ ns)] @ es2 @
                [Log ErrorLevel
                             (''Error fetching objects for resource '' @ gvr_Resource resource
                              @ '' in namespace '' @ ns @ '': '' @ Error (ErrorString (''error listing objects for resource '' @ gvr_Resource resource
                               @ '' in namespace '' @ ns @ '': '' @ Error err)))] @ es"])
           (simp add: IH gate unfold resource_findings_def [of cs dc ns resource] True ls Inl
              fetched_objects_def)
    next
      case (Inr items)
      obtain es3 where ob: "\<And>results t.
          ScanNamespaceResources_objects dc ns resource (map GetName items) results t =
          (results @ concat (map (object_findings dc ns)
                        (got_objects dc ns resource (map GetName items))), t @ es3)"
        using ScanNamespaceResources_objects_run by blast
      show ?thesis
        by (intro exI [of _ "es1 @ [Log DebugLevel
                            (''Processing resource: '' @ gvr_Resource resource
                             @ '' in namespace: '' @ ns)] @ es2 @
                [Log DebugLevel
                                    (''Found '' @ fmt_d (length (map GetName items))
                                     @ '' objects for resource '' @ gvr_Resource resource
                                     @ '' in namespace '' @ ns)] @ es3 @ es"])
           (simp add: IH gate unfold resource_findings_def [of cs dc ns resource] True ls Inr
              fetched_objects_def ob)
    qed
  qed
qed

lemma ScanNamespaceResources_namespaces_run:
  "\<exists>es. \<forall>results t. ScanNamespaceResources_namespaces cs dc namespaces resources results t =
     (results @ concat (map (namespace_findings cs dc resources) namespaces), t @ es)"
proof (induction namespaces)
  case Nil
  show ?case by simp
next
  case (Cons ns namespaces)
  then obtain es where IH: "\<And>results t.
      ScanNamespaceResources_namespaces cs dc namespaces resources results t =
        (results @ concat (map (namespace_findings cs dc resources) namespaces), t @ es)"
    by blast
  obtain es1 where rs: "\<And>results t.
      ScanNamespaceResources_resources cs dc ns resources results t =
        (results @ namespace_findings cs dc resources ns, t @ es1)"
    using ScanNamespaceResources_resources_run by blast
  show ?case
    by (intro exI [of _ "[Log DebugLevel (''Processing namespace: '' @ ns)] @ es1 @ es"])
       (simp add: IH rs)
qed

lemma GetNamespaceScopedResources_inner_eq:
  "GetNamespaceScopedResources_inner gv apiResources resources =
     resources @ map (\<lambda>apiResource. WithResource gv (ar_Name apiResource))
                   (filter ar_Namespaced apiResources)"
  by (induction apiResources arbitrary: resources) simp_all

lemma GetNamespaceScopedResources_loop_parsed:
  "\<forall>l \<in> set apiResourceLists. parses (arl_GroupVersion l) \<Longrightarrow>
   GetNamespaceScopedResources_loop apiResourceLists resources =
     Inr (resources @ namespaced_types apiResourceLists)"
proof (induction apiResourceLists arbitrary: resources)
  case Nil
  show ?case by (simp add: namespaced_types_def)
next
  case (Cons l ls)
  from Cons.prems obtain gv where gv: "ParseGroupVersion (arl_GroupVersion l) = Inr gv"
    by (auto simp add: parses_def split: sum.splits)
  have unfold: "namespaced_types (l # ls) = namespaced_types_of l @ namespaced_types ls"
    by (simp add: namespaced_types_def)
  show ?case
    using Cons.prems
    by (simp add: gv Cons.IH unfold namespaced_types_of_def GetNamespaceScopedResources_inner_eq)
qed

lemma GetNamespaceScopedResources_loop_unparsed:
  "\<exists>l \<in> set apiResourceLists. \<not> parses (arl_GroupVersion l) \<Longrightarrow>
   \<exists>err. GetNamespaceScopedResources_loop apiResourceLists resources = Inl err"
proof (induction apiResourceLists arbitrary: resources)
  case Nil
  then show ?case by simp
next
  case (Cons l ls)
  show ?case
  proof (cases "ParseGroupVersion (arl_GroupVersion l)")
    case (Inl err)
    then show ?thesis by simp
  next
    case (Inr gv)
    with Cons.prems have "\<exists>l \<in> set ls. \<not> parses (arl_GroupVersion l)"
      by (simp add: parses_def)
    with Cons.IH Inr show ?thesis by simp
  qed
qed

lemma GetNamespaceScopedResources_run:
  "\<exists>es. \<forall>t. GetNamespaceScopedResources cs t = (discovered_types cs, t @ es)"
proof (cases "ServerPreferredNamespacedResources cs")
  case (Pair apiResourceLists err)
  show ?thesis
  proof (cases err)
    case None
    with Pair show ?thesis
      by (simp add: GetNamespaceScopedResources_def discovered_types_def)
  next
    case (Some e)
    with Pair show ?thesis
      by (cases "IsGroupDiscoveryFailedError e")
         (simp_all add: GetNamespaceScopedResources_def discovered_types_def)
  qed
qed

lemma GetNamespaces_run:
  "\<exists>es. \<forall>t. GetNamespaces cs t = (NamespacesList cs, t @ es)"
  by (cases "NamespacesList cs") (simp_all add: GetNamespaces_def)

lemma ScanNamespaceResources_run:
  "\<exists>es. \<forall>t. ScanNamespaceResources cs dc t = (scan_result cs dc, t @ es)"
proof -
  obtain es1 where d: "\<And>t. GetNamespaceScopedResources cs t = (discovered_types cs, t @ es1)"
    using GetNamespaceScopedResources_run by blast
  obtain es2 where n: "\<And>t. GetNamespaces cs t = (NamespacesList cs, t @ es2)"
    using GetNamespaces_run by blast
  show ?thesis
  proof (cases "discovered_types cs")
    case (Inl err)
    show ?thesis
      by (intro exI [of _ "[Log DebugLevel ''Fetching namespace-scoped resources...''] @ es1 @
             [Log ErrorLevel (''Error fetching namespace-scoped resources: '' @ Error err)]"])
         (simp add: ScanNamespaceResources_def scan_result_def d Inl)
  next
    case (Inr resources)
    note rs = Inr
    show ?thesis
    proof (cases "NamespacesList cs")
      case (Inl err)
      show ?thesis
        by (intro exI [of _ "[Log DebugLevel ''Fetching namespace-scoped resources...''] @ es1 @
               [Log DebugLevel (''Found '' @ fmt_d (length resources)
                               @ '' namespace-scoped resources''),
                Log DebugLevel ''Fetching namespaces...''] @ es2 @
               [Log ErrorLevel (''Error fetching namespaces: '' @ Error err)]"])
           (simp add: ScanNamespaceResources_def scan_result_def d n rs Inl)
    next
      case (Inr namespaces)
      obtain es3 where l: "\<And>results t.
          ScanNamespaceResources_namespaces cs dc namespaces resources results t =
            (results @ concat (map (namespace_findings cs dc resources) namespaces), t @ es3)"
        using ScanNamespaceResources_namespaces_run by blast
      show ?thesis
        by (intro exI [of _ "[Log DebugLevel ''Fetching namespace-scoped resources...''] @ es1 @
               [Log DebugLevel (''Found '' @ fmt_d (length resources)
                               @ '' namespace-scoped resources''),
                Log DebugLevel ''Fetching namespaces...''] @ es2 @
               [Log DebugLevel (''Found '' @ fmt_d (length namespaces) @ '' namespaces'')] @ es3 @
               [Log InfoLevel (''Scanning completed: Found '' @
                   fmt_d (length (concat (map (namespace_findings cs dc resources) namespaces)))
                                  @ '' issues'')]"])
           (simp add: ScanNamespaceResources_def scan_result_def d n rs Inr l)
    qed
  qed
qed

text \<open>The same facts for the returned value alone.\<close>

lemma CheckStuckFinalizers_fst:
  "fst (CheckStuckFinalizers obj t) = stuck_finalizer_findings obj"
  using CheckStuckFinalizers_run [of obj] by auto

lemma OwnerExists_fst: "fst (OwnerExists dc owner ns t) = owner_resolves dc owner ns"
  using OwnerExists_run [of dc owner ns] by auto

lemma CheckInvalidOwnerReferences_fst:
  "fst (CheckInvalidOwnerReferences dc obj ns t) = invalid_owner_findings dc obj ns"
  using CheckInvalidOwnerReferences_run [of dc obj ns] by auto

lemma resourceSupportsList_fst:
  "fst (resourceSupportsList cs resource t) = passes_list_gate cs resource"
  using resourceSupportsList_run [of cs resource] by auto

lemma GetNamespaceScopedResources_fst:
  "fst (GetNamespaceScopedResources cs t) = discovered_types cs"
  using GetNamespaceScopedResources_run [of cs] by auto

lemma GetNamespaces_fst: "fst (GetNamespaces cs t) = NamespacesList cs"
  using GetNamespaces_run [of cs] by auto

lemma ScanNamespaceResources_fst:
  "fst (ScanNamespaceResources cs dc t) = scan_result cs dc"
  using ScanNamespaceResources_run [of cs dc] by auto

lemma ScanNamespaceResources_objects_fst:
  "fst (ScanNamespaceResources_objects dc ns resource names results t) =
     results @ concat (map (object_findings dc ns) (got_objects dc ns resource names))"
  using ScanNamespaceResources_objects_run [of dc ns resource names] by auto

lemma ScanNamespaceResources_resources_fst:
  "fst (ScanNamespaceResources_resources cs dc ns resources results t) =
     results @ namespace_findings cs dc resources ns"
  using ScanNamespaceResources_resources_run [of cs dc ns resources] by auto

text \<open>The aggregate result in the words of the specification is the nested one.\<close>

lemma health_checks_eq: "health_checks dc ns obj = object_findings dc ns obj"
proof -
  obtain es1 where sf: "\<And>t. CheckStuckFinalizers obj t = (stuck_finalizer_findings obj, t @ es1)"
    using CheckStuckFinalizers_run by blast
  obtain es2 where io: "\<And>t. CheckInvalidOwnerReferences dc obj ns t =
      (invalid_owner_findings dc obj ns, t @ es2)"
    using CheckInvalidOwnerReferences_run by blast
  show ?thesis by (simp add: health_checks_def object_findings_def sf io)
qed

lemma supports_list_eq: "supports_list cs resource = passes_list_gate cs resource"
proof -
  obtain es where g: "\<And>t. resourceSupportsList cs resource t = (passes_list_gate cs resource, t @ es)"
    using resourceSupportsList_run by blast
  show ?thesis by (simp add: supports_list_def g)
qed

lemma concatenated_findings_nested:
  "concatenated_findings cs dc namespaces resources =
     concat (map (namespace_findings cs dc resources) namespaces)"
proof -
  have gate: "supports_list cs = passes_list_gate cs"
    by (rule ext) (rule supports_list_eq)
  have checks: "(\<lambda>(ns, obj). health_checks dc ns obj) = (\<lambda>(ns, obj). object_findings dc ns obj)"
    by (simp add: health_checks_eq)
  have inner: "concat (map (\<lambda>(ns, obj). object_findings dc ns obj)
                 (concat (map (\<lambda>resource. map (Pair ns) (fetched_objects dc ns resource))
                            (filter (passes_list_gate cs) rs)))) =
               namespace_findings cs dc rs ns" for ns rs
    by (induction rs) (simp_all add: namespace_findings_def resource_findings_def comp_def)
  show ?thesis
    unfolding concatenated_findings_def traversal_def gate checks
    by (induction namespaces) (simp_all add: inner)
qed

section \<open>The list gate\<close>

text \<open>
  With a re-query of the catalog that reports no error, \<^const>\<open>resourceSupportsList\<close>
  answers whether \<^verbatim>\<open>list\<close> is among the verbs the catalog reports for the type;
  with a re-query that reports an error it answers false, whatever lists came with the
  error. A type for which it answers false is passed over: the loop goes on with the
  next type, the results are unchanged and no request to list or get objects is sent.
\<close>

lemma resourceSupportsList_verbs_iff:
  "resourceSupportsList_verbs verbs \<longleftrightarrow> ''list'' \<in> set verbs"
  by (induction verbs) auto

lemma resourceSupportsList_resources_find:
  "resourceSupportsList_resources apiResources resource =
     (case find (\<lambda>apiResource. ar_Name apiResource = gvr_Resource resource) apiResources of
        None \<Rightarrow> None
      | Some apiResource \<Rightarrow> Some (''list'' \<in> set (ar_Verbs apiResource)))"
  by (induction apiResources) (simp_all add: resourceSupportsList_verbs_iff)

lemma resourceSupportsList_lists_iff:
  "resourceSupportsList_lists catalog resource = list_among_verbs catalog resource"
  unfolding list_among_verbs_def
  by (induction catalog)
     (simp_all add: resourceSupportsList_resources_find split: option.splits)

lemma resourceSupportsList_complete_catalog:
  "ServerPreferredResources cs = (catalog, None) \<Longrightarrow>
   fst (resourceSupportsList cs resource t) = list_among_verbs catalog resource"
  by (simp add: resourceSupportsList_fst passes_list_gate_def resourceSupportsList_lists_iff)

lemma resourceSupportsList_on_error:
  "ServerPreferredResources cs = (catalog, Some e) \<Longrightarrow>
   resourceSupportsList cs resource t =
     (False, t @ [Request ReqServerPreferredResources,
                  Log ErrorLevel
                     (''Error fetching API resources to check for '' @ [CHR 0x27] @ ''list''
                      @ [CHR 0x27] @ '' support: '' @ Error e)])"
  by (simp add: resourceSupportsList_def)

lemma resourceSupportsList_no_fetch:
  "filter is_fetch (snd (resourceSupportsList cs resource t)) = filter is_fetch t"
proof (cases "ServerPreferredResources cs")
  case (Pair apiResourceLists err)
  then show ?thesis
    by (cases err) (simp_all add: resourceSupportsList_def)
qed

lemma unlisted_type_passed_over:
  assumes "\<not> fst (resourceSupportsList cs resource t)"
  shows "\<exists>t'. ScanNamespaceResources_resources cs dc ns (resource # resources) results t =
                ScanNamespaceResources_resources cs dc ns resources results t' \<and>
              filter is_fetch t' = filter is_fetch t"
proof -
  obtain supported t1 where g: "resourceSupportsList cs resource t = (supported, t1)"
    by (cases "resourceSupportsList cs resource t")
  with assms have "\<not> supported" by simp
  moreover have "filter is_fetch t1 = filter is_fetch t"
    using resourceSupportsList_no_fetch [of cs resource t] g by simp
  ultimately show ?thesis
    using g
    by (intro exI [of _ "t1 @ [Log DebugLevel
           (''Skipping resource '' @ gvr_Resource resource
            @ '' as it does not support '' @ [CHR 0x27] @ ''list'' @ [CHR 0x27])]"]) simp
qed

section \<open>Discovery, enumeration and the errors of the scan\<close>

lemma discovered_types_total_failure:
  "ServerPreferredNamespacedResources cs = (apiResourceLists, Some e) \<Longrightarrow>
   \<not> IsGroupDiscoveryFailedError e \<Longrightarrow>
   discovered_types cs = Inl (ErrorString (''error fetching namespaced resources: '' @ Error e))"
  by (simp add: discovered_types_def)

lemma discovered_types_partial:
  assumes "ServerPreferredNamespacedResources cs = (apiResourceLists, Some e)"
    and "IsGroupDiscoveryFailedError e"
    and "\<forall>l \<in> set apiResourceLists. parses (arl_GroupVersion l)"
  shows "discovered_types cs = Inr (namespaced_types apiResourceLists)"
  using assms GetNamespaceScopedResources_loop_parsed [of apiResourceLists "[]"]
  by (simp add: discovered_types_def)

lemma scan_result_error_iff:
  "(\<exists>e. scan_result cs dc = Inl e) \<longleftrightarrow>
     (\<exists>e. discovered_types cs = Inl e) \<or> (\<exists>e. NamespacesList cs = Inl e)"
  by (auto simp add: scan_result_def split: sum.splits)

lemma GetNamespaceScopedResources_no_fetch:
  "filter is_fetch (snd (GetNamespaceScopedResources cs t)) = filter is_fetch t"
proof (cases "ServerPreferredNamespacedResources cs")
  case (Pair apiResourceLists err)
  show ?thesis
  proof (cases err)
    case None
    with Pair show ?thesis by (simp add: GetNamespaceScopedResources_def)
  next
    case (Some e)
    with Pair show ?thesis
      by (cases "IsGroupDiscoveryFailedError e") (simp_all add: GetNamespaceScopedResources_def)
  qed
qed

lemma GetNamespaces_no_fetch:
  "filter is_fetch (snd (GetNamespaces cs t)) = filter is_fetch t"
  by (simp add: GetNamespaces_def)

lemma ScanNamespaceResources_abort_no_fetch:
  assumes "fst (ScanNamespaceResources cs dc t) = Inl e"
  shows "filter is_fetch (snd (ScanNamespaceResources cs dc t)) = filter is_fetch t"
proof -
  obtain es1 where d: "\<And>t. GetNamespaceScopedResources cs t = (discovered_types cs, t @ es1)"
    using GetNamespaceScopedResources_run by blast
  obtain es2 where n: "\<And>t. GetNamespaces cs t = (NamespacesList cs, t @ es2)"
    using GetNamespaces_run by blast
  have f1: "filter is_fetch es1 = []"
    using GetNamespaceScopedResources_no_fetch [of cs "[]"] d [of "[]"] by simp
  have f2: "filter is_fetch es2 = []"
    using GetNamespaces_no_fetch [of cs "[]"] n [of "[]"] by simp
  show ?thesis
  proof (cases "discovered_types cs")
    case (Inl err)
    then show ?thesis
      by (simp add: ScanNamespaceResources_def d f1)
  next
    case (Inr resources)
    note rs = Inr
    show ?thesis
    proof (cases "NamespacesList cs")
      case (Inl err)
      with rs show ?thesis
        by (simp add: ScanNamespaceResources_def d n f1 f2)
    next
      case (Inr namespaces)
      with rs assms show ?thesis
        by (simp add: ScanNamespaceResources_def d n split: prod.splits)
    qed
  qed
qed

section \<open>Where a finding comes from\<close>

lemma object_findings_fields:
  assumes "r \<in> set (object_findings dc ns obj)"
  shows "Namespace r = GetNamespace obj \<and> Name r = GetName obj \<and> Resource r = GetKind obj \<and>
         (Issue r = ''Stuck finalizer'' \<or> Issue r = ''Invalid ownerReference'')"
  using assms
  by (auto simp add: object_findings_def stuck_finalizer_findings_def invalid_owner_findings_def
        stuckFinalizerFinding_def invalidOwnerFinding_def split: if_splits)

lemma namespace_findings_origin:
  assumes "r \<in> set (namespace_findings cs dc resources ns)"
  shows "\<exists>resource \<in> set resources. \<exists>obj \<in> set (fetched_objects dc ns resource).
           r \<in> set (object_findings dc ns obj)"
  using assms
  by (auto simp add: namespace_findings_def resource_findings_def split: if_splits)

lemma scan_result_origin:
  assumes "scan_result cs dc = Inr results" and "r \<in> set results"
  shows "\<exists>ns resource obj. obj \<in> set (fetched_objects dc ns resource) \<and>
           r \<in> set (object_findings dc ns obj)"
proof -
  from assms obtain resources namespaces where
    "results = concat (map (namespace_findings cs dc resources) namespaces)"
    by (auto simp add: scan_result_def split: sum.splits)
  with assms(2) obtain ns where "r \<in> set (namespace_findings cs dc resources ns)"
    by auto
  then show ?thesis
    using namespace_findings_origin by blast
qed

section \<open>The example cluster, evaluated\<close>

lemma example_owner_resolves:
  "owner_resolves example_dynamic owner_d1 ''app'' = False"
  "owner_resolves example_dynamic owner_d2 ''app'' = True"
  "owner_resolves example_dynamic owner_malformed ''app'' = False"
  by (simp_all add: owner_resolves_def get_succeeds_def ParseGroupVersion_def example_dynamic_def
        owner_d1_def owner_d2_def owner_malformed_def pods_def replicasets_def)

lemma example_discovered:
  "discovered_types example_clientset = Inr [pods, bindings, replicasets]"
  by (simp add: discovered_types_def example_clientset_def
        example_namespaced_catalog_def ParseGroupVersion_def WithResource_def pods_def bindings_def
        replicasets_def)

lemma example_gate:
  "passes_list_gate example_clientset pods = True"
  "passes_list_gate example_clientset bindings = False"
  "passes_list_gate example_clientset replicasets = True"
  by (simp_all add: passes_list_gate_def example_clientset_def example_catalog_def
        GroupVersion_String_def GroupVersion_of_def pods_def bindings_def replicasets_def)

lemma example_lists:
  "ResourceList example_dynamic pods ''kube-system'' = Inl (ErrorString ''forbidden'')"
  "ResourceList example_dynamic replicasets ''kube-system'' = Inl (ErrorString ''forbidden'')"
  "ResourceList example_dynamic pods ''app'' = Inr [pod_p0, pod_p1, pod_p2]"
  "ResourceList example_dynamic replicasets ''app'' = Inr [replicaset_rs1]"
  by (simp_all add: example_dynamic_def pods_def replicasets_def)

lemma example_gets:
  "ResourceGet example_dynamic pods ''app'' ''p0'' = Inl (ErrorString ''not found'')"
  "ResourceGet example_dynamic pods ''app'' ''p1'' = Inr pod_p1"
  "ResourceGet example_dynamic pods ''app'' ''p2'' = Inr pod_p2"
  "ResourceGet example_dynamic replicasets ''app'' ''rs1'' = Inr replicaset_rs1"
  by (simp_all add: example_dynamic_def pods_def replicasets_def)

lemma example_object_findings:
  "object_findings example_dynamic ''app'' pod_p1 = [stuckFinalizerFinding pod_p1]"
  "object_findings example_dynamic ''app'' pod_p2 = []"
  "object_findings example_dynamic ''app'' replicaset_rs1 =
     [invalidOwnerFinding replicaset_rs1 owner_d1]"
  by (simp_all add: object_findings_def stuck_finalizer_findings_def invalid_owner_findings_def
        example_owner_resolves pod_p1_def pod_p2_def replicaset_rs1_def)

lemma example_fetched:
  "fetched_objects example_dynamic ''kube-system'' pods = []"
  "fetched_objects example_dynamic ''kube-system'' replicasets = []"
  "fetched_objects example_dynamic ''app'' pods = [pod_p1, pod_p2]"
  "fetched_objects example_dynamic ''app'' replicasets = [replicaset_rs1]"
  by (simp_all add: fetched_objects_def got_objects_def example_lists example_gets)
     (simp_all add: pod_p0_def pod_p1_def pod_p2_def replicaset_rs1_def example_gets)

lemma example_namespace_findings:
  "namespace_findings example_clientset example_dynamic [pods, bindings, replicasets] ''kube-system'' = []"
  "namespace_findings example_clientset example_dynamic [pods, bindings, replicasets] ''app'' =
     [stuckFinalizerFinding pod_p1, invalidOwnerFinding replicaset_rs1 owner_d1]"
  by (simp_all add: namespace_findings_def resource_findings_def example_gate example_fetched
        example_object_findings)

lemma example_namespaces: "NamespacesList example_clientset = Inr [''kube-system'', ''app'']"
  by (simp add: example_clientset_def)

lemma example_scan_result:
  "scan_result example_clientset example_dynamic =
     Inr [stuckFinalizerFinding pod_p1, invalidOwnerFinding replicaset_rs1 owner_d1]"
  by (simp add: scan_result_def example_discovered example_namespaces example_namespace_findings)

lemma example_traversal:
  "traversal example_clientset example_dynamic [''kube-system'', ''app'']
     [pods, bindings, replicasets] =
   [(''app'', pod_p1), (''app'', pod_p2), (''app'', replicaset_rs1)]"
  by (simp add: traversal_def supports_list_eq example_gate example_fetched)

lemma example_catalog_parses:
  "\<forall>l \<in> set example_namespaced_catalog. parses (arl_GroupVersion l)"
  by (simp add: example_namespaced_catalog_def parses_def ParseGroupVersion_def)

lemma example_namespaced_types:
  "namespaced_types example_namespaced_catalog = [pods, bindings, replicasets]"
  by (simp add: namespaced_types_def namespaced_types_of_def example_namespaced_catalog_def
        ParseGroupVersion_def WithResource_def pods_def bindings_def replicasets_def)

lemma partial_gate: "passes_list_gate partial_clientset resource = False"
  by (simp add: passes_list_gate_def partial_clientset_def)

lemma partial_scan_result: "scan_result partial_clientset example_dynamic = Inr []"
proof -
  have d: "discovered_types partial_clientset = Inr [pods, bindings, replicasets]"
    using discovered_types_partial [of partial_clientset example_namespaced_catalog partial_error]
    by (simp add: partial_clientset_def partial_error_def example_catalog_parses
          example_namespaced_types)
  have n: "NamespacesList partial_clientset = Inr [''kube-system'', ''app'']"
    by (simp add: partial_clientset_def)
  show ?thesis
    by (simp add: scan_result_def d n namespace_findings_def resource_findings_def partial_gate)
qed


section \<open>The claims\<close>

subsection \<open>The health checks\<close>

text \<open>
  Claim C1. For every object, \<^const>\<open>CheckStuckFinalizers\<close> returns exactly one
  finding when the finalizer list of the object is not empty and its deletion timestamp
  is not nil, and no finding when either condition is missing. The finding is one per
  object, whatever the number of finalizers.
\<close>

theorem CheckStuckFinalizers_one_per_object:
  "(GetFinalizers obj \<noteq> [] \<and> GetDeletionTimestamp obj \<noteq> None \<longrightarrow>
      fst (CheckStuckFinalizers obj t) = [stuckFinalizerFinding obj] \<and>
      length (fst (CheckStuckFinalizers obj t)) = 1) \<and>
   (GetFinalizers obj = [] \<or> GetDeletionTimestamp obj = None \<longrightarrow>
      fst (CheckStuckFinalizers obj t) = [])"
  by (simp add: CheckStuckFinalizers_def stuckFinalizerFinding_def)

text \<open>
  The pod \<^const>\<open>pod_p1\<close> has two finalizers and a deletion timestamp and gets one
  finding; \<^const>\<open>pod_p2\<close> has a deletion timestamp and no finalizer,
  \<^const>\<open>pod_p0\<close> has neither, and both get none.
\<close>

theorem CheckStuckFinalizers_one_per_object_witness:
  "length (GetFinalizers pod_p1) = 2 \<and> GetDeletionTimestamp pod_p1 \<noteq> None \<and>
   length (fst (CheckStuckFinalizers pod_p1 [])) = 1 \<and>
   GetFinalizers pod_p2 = [] \<and> fst (CheckStuckFinalizers pod_p2 []) = [] \<and>
   GetDeletionTimestamp pod_p0 = None \<and> fst (CheckStuckFinalizers pod_p0 []) = []"
  using CheckStuckFinalizers_one_per_object [of pod_p1 "[]"]
    CheckStuckFinalizers_one_per_object [of pod_p2 "[]"]
    CheckStuckFinalizers_one_per_object [of pod_p0 "[]"]
  by (simp add: pod_p0_def pod_p1_def pod_p2_def)

text \<open>
  Claim C2. For every object, \<^const>\<open>CheckInvalidOwnerReferences\<close> returns one finding
  for each declared owner reference for which \<^const>\<open>OwnerExists\<close> answers false, in
  the order of the references, and none for the owners that resolve; so the number of
  findings is the number of unresolved references, and an object without owner
  references gets no finding.
\<close>

theorem CheckInvalidOwnerReferences_one_per_unresolved:
  "fst (CheckInvalidOwnerReferences dc obj ns t) =
     map (invalidOwnerFinding obj)
       (filter (\<lambda>owner. \<not> fst (OwnerExists dc owner ns [])) (GetOwnerReferences obj)) \<and>
   length (fst (CheckInvalidOwnerReferences dc obj ns t)) =
     length (filter (\<lambda>owner. \<not> fst (OwnerExists dc owner ns [])) (GetOwnerReferences obj)) \<and>
   (GetOwnerReferences obj = [] \<longrightarrow> fst (CheckInvalidOwnerReferences dc obj ns t) = [])"
  by (simp add: CheckInvalidOwnerReferences_fst OwnerExists_fst invalid_owner_findings_def)

text \<open>
  The object \<^const>\<open>orphan\<close> declares four owners, of which \<^const>\<open>owner_d2\<close>
  resolves and three do not: three findings. The pod \<^const>\<open>pod_p1\<close>, stuck in
  deletion, declares no owner: no finding.
\<close>

theorem CheckInvalidOwnerReferences_one_per_unresolved_witness:
  "length (GetOwnerReferences orphan) = 4 \<and>
   fst (CheckInvalidOwnerReferences example_dynamic orphan ''app'' []) =
     [invalidOwnerFinding orphan owner_d1, invalidOwnerFinding orphan owner_malformed,
      invalidOwnerFinding orphan owner_d1] \<and>
   length (fst (CheckInvalidOwnerReferences example_dynamic orphan ''app'' [])) = 3 \<and>
   GetOwnerReferences pod_p1 = [] \<and>
   fst (CheckInvalidOwnerReferences example_dynamic pod_p1 ''app'' []) = []"
  using CheckInvalidOwnerReferences_one_per_unresolved [of example_dynamic orphan "''app''" "[]"]
    CheckInvalidOwnerReferences_one_per_unresolved [of example_dynamic pod_p1 "''app''" "[]"]
  by (simp add: OwnerExists_fst example_owner_resolves orphan_def pod_p1_def)

text \<open>
  Claim C3. \<^const>\<open>OwnerExists\<close> answers false whenever the declared apiVersion of the
  owner does not parse into group and version. When it parses, the function sends one
  get, for the parsed group and version with the kind of the owner as the resource name,
  unchanged, in the given namespace and under the name of the owner, and answers true
  exactly when that get succeeds.
\<close>

theorem OwnerExists_parse_then_get:
  "(\<forall>err. ParseGroupVersion (ref_APIVersion owner) = Inl err \<longrightarrow>
      fst (OwnerExists dc owner ns t) = False) \<and>
   (\<forall>gv. ParseGroupVersion (ref_APIVersion owner) = Inr gv \<longrightarrow>
      fst (OwnerExists dc owner ns t) =
        (\<exists>found. ResourceGet dc
           \<lparr>gvr_Group = gv_Group gv, gvr_Version = gv_Version gv, gvr_Resource = ref_Kind owner\<rparr>
           ns (ref_Name owner) = Inr found) \<and>
      snd (OwnerExists dc owner ns t) =
        t @ [Request (ReqGet
           \<lparr>gvr_Group = gv_Group gv, gvr_Version = gv_Version gv, gvr_Resource = ref_Kind owner\<rparr>
           ns (ref_Name owner))])"
  by (auto simp add: OwnerExists_def Let_def split: sum.splits)

text \<open>
  The apiVersion \<^verbatim>\<open>apps/v1/beta\<close> does not parse: false. The owners
  \<^const>\<open>owner_d1\<close> and \<^const>\<open>owner_d2\<close> parse; the get of \<^verbatim>\<open>d2\<close> under the
  resource name \<^verbatim>\<open>Deployment\<close> succeeds, the get of \<^verbatim>\<open>d1\<close> does not.
\<close>

theorem OwnerExists_parse_then_get_witness:
  "ParseGroupVersion (ref_APIVersion owner_malformed) =
     Inl (ErrorString ''unexpected GroupVersion string: apps/v1/beta'') \<and>
   fst (OwnerExists example_dynamic owner_malformed ''app'' []) = False \<and>
   ParseGroupVersion (ref_APIVersion owner_d2) = Inr \<lparr>gv_Group = ''apps'', gv_Version = ''v1''\<rparr> \<and>
   fst (OwnerExists example_dynamic owner_d2 ''app'' []) = True \<and>
   snd (OwnerExists example_dynamic owner_d2 ''app'' []) =
     [Request (ReqGet \<lparr>gvr_Group = ''apps'', gvr_Version = ''v1'', gvr_Resource = ''Deployment''\<rparr>
                 ''app'' ''d2'')] \<and>
   ParseGroupVersion (ref_APIVersion owner_d1) = Inr \<lparr>gv_Group = ''apps'', gv_Version = ''v1''\<rparr> \<and>
   fst (OwnerExists example_dynamic owner_d1 ''app'' []) = False"
  using OwnerExists_parse_then_get [of owner_malformed example_dynamic "''app''" "[]"]
    OwnerExists_parse_then_get [of owner_d2 example_dynamic "''app''" "[]"]
    OwnerExists_parse_then_get [of owner_d1 example_dynamic "''app''" "[]"]
  by (simp add: ParseGroupVersion_def example_dynamic_def
        owner_d1_def owner_d2_def owner_malformed_def pods_def replicasets_def)

subsection \<open>The list gate under a partial discovery failure\<close>

text \<open>
  Claim C4, evaluated where the code departs from it. In the cluster
  \<^const>\<open>partial_clientset\<close> the re-query of the catalog returns the lists of the groups
  that answered together with a group discovery failure. The returned catalog reports
  the verb \<^verbatim>\<open>list\<close> for \<^verbatim>\<open>pods\<close>, but \<^const>\<open>resourceSupportsList\<close>
  answers false, as it does for every type, and the scan, which returns two findings
  when the same catalog comes without the error, returns none. The parts of the claim
  that hold are \<open>resourceSupportsList_complete_catalog\<close> (the answer is whether
  \<^verbatim>\<open>list\<close> is among the verbs, when the re-query reports no error) and
  \<open>unlisted_type_passed_over\<close> (a type for which the answer is false is passed over
  without a request to list or get).
\<close>

theorem resourceSupportsList_rejects_partial_catalog:
  "ServerPreferredResources partial_clientset = (example_catalog, Some partial_error) \<and>
   IsGroupDiscoveryFailedError partial_error \<and>
   catalog_verbs example_catalog pods = Some [''get'', ''list'', ''watch''] \<and>
   list_among_verbs example_catalog pods \<and>
   fst (resourceSupportsList partial_clientset pods []) = False \<and>
   fst (resourceSupportsList example_clientset pods []) = True \<and>
   fst (ScanNamespaceResources partial_clientset example_dynamic []) = Inr [] \<and>
   fst (ScanNamespaceResources example_clientset example_dynamic []) =
     Inr [stuckFinalizerFinding pod_p1, invalidOwnerFinding replicaset_rs1 owner_d1]"
proof -
  have verbs: "catalog_verbs example_catalog pods = Some [''get'', ''list'', ''watch'']"
    by (simp add: example_catalog_def pods_def GroupVersion_String_def GroupVersion_of_def)
  then have among: "list_among_verbs example_catalog pods"
    by (simp add: list_among_verbs_def)
  have partial: "ServerPreferredResources partial_clientset = (example_catalog, Some partial_error)"
    "IsGroupDiscoveryFailedError partial_error"
    by (simp_all add: partial_clientset_def partial_error_def)
  show ?thesis
    using verbs among partial
    by (simp add: resourceSupportsList_fst partial_gate example_gate ScanNamespaceResources_fst
          partial_scan_result example_scan_result)
qed

subsection \<open>Partial discovery failures\<close>



subsection \<open>The scan: which errors are fatal\<close>

lemma scan_result_nothing_discovered:
  assumes "ServerPreferredNamespacedResources cs = ([], Some e)"
    and "IsGroupDiscoveryFailedError e"
    and "NamespacesList cs = Inr namespaces"
  shows "scan_result cs dc = Inr []"
proof -
  have d: "discovered_types cs = Inr []"
    using assms by (simp add: discovered_types_def)
  show ?thesis
    using assms by (simp add: scan_result_def d namespace_findings_def)
qed

lemma all_failed_answers:
  "ServerPreferredNamespacedResources all_failed_clientset = ([], Some partial_error)"
  "IsGroupDiscoveryFailedError partial_error"
  "NamespacesList all_failed_clientset = Inr [''kube-system'', ''app'']"
  by (simp_all add: all_failed_clientset_def partial_error_def)

text \<open>
  Claim C6 as it is stated does not hold. In the cluster \<^const>\<open>all_failed_clientset\<close>
  the discovery of the resource types fails for every group: it returns no list at all,
  so that no partial result is available, together with a group discovery failure.
  \<^const>\<open>GetNamespaceScopedResources\<close> returns the empty list of types and no error,
  and \<^const>\<open>ScanNamespaceResources\<close> returns an empty result and no error, where the
  claim has the error surfaced and the pass aborted.
\<close>

theorem ScanNamespaceResources_all_groups_failed_counterexample:
  "ServerPreferredNamespacedResources all_failed_clientset = ([], Some partial_error) \<and>
   IsGroupDiscoveryFailedError partial_error \<and>
   fst (GetNamespaceScopedResources all_failed_clientset []) = Inr [] \<and>
   fst (ScanNamespaceResources all_failed_clientset example_dynamic []) = Inr []"
  using all_failed_answers
  by (simp add: GetNamespaceScopedResources_fst ScanNamespaceResources_fst discovered_types_def
        scan_result_nothing_discovered [of all_failed_clientset partial_error])

text \<open>
  Claim C6, as amended. If the discovery of the resource types fails with an error that
  is not a group discovery failure, \<^const>\<open>ScanNamespaceResources\<close> returns that error,
  wrapped, and no result list; if the namespaces cannot be enumerated after a discovery
  that returned, it returns the error of the enumeration; whenever the enumeration
  fails the scan returns an error. A scan that returns an error has sent no request to
  list or get objects, so there are no partial findings. A group discovery failure is
  not fatal even when it comes with no list at all: the discovery then returns no type,
  and the scan, when the namespaces are enumerated, returns an empty result and no
  error.
\<close>

theorem ScanNamespaceResources_fatal:
  "(\<forall>apiResourceLists e.
      ServerPreferredNamespacedResources cs = (apiResourceLists, Some e) \<and>
      \<not> IsGroupDiscoveryFailedError e \<longrightarrow>
      fst (ScanNamespaceResources cs dc t) =
        Inl (ErrorString (''error fetching namespaced resources: '' @ Error e))) \<and>
   (\<forall>e resources.
      fst (GetNamespaceScopedResources cs t) = Inr resources \<and> NamespacesList cs = Inl e \<longrightarrow>
      fst (ScanNamespaceResources cs dc t) = Inl e) \<and>
   (\<forall>e. NamespacesList cs = Inl e \<longrightarrow> (\<exists>e'. fst (ScanNamespaceResources cs dc t) = Inl e')) \<and>
   (\<forall>e. fst (ScanNamespaceResources cs dc t) = Inl e \<longrightarrow>
      filter is_fetch (snd (ScanNamespaceResources cs dc t)) = filter is_fetch t) \<and>
   (\<forall>e namespaces.
      ServerPreferredNamespacedResources cs = ([], Some e) \<and> IsGroupDiscoveryFailedError e \<and>
      NamespacesList cs = Inr namespaces \<longrightarrow>
      fst (GetNamespaceScopedResources cs t) = Inr [] \<and>
      fst (ScanNamespaceResources cs dc t) = Inr [])"
proof -
  have main: "(\<forall>apiResourceLists e.
      ServerPreferredNamespacedResources cs = (apiResourceLists, Some e) \<and>
      \<not> IsGroupDiscoveryFailedError e \<longrightarrow>
      fst (ScanNamespaceResources cs dc t) =
        Inl (ErrorString (''error fetching namespaced resources: '' @ Error e))) \<and>
   (\<forall>e resources.
      fst (GetNamespaceScopedResources cs t) = Inr resources \<and> NamespacesList cs = Inl e \<longrightarrow>
      fst (ScanNamespaceResources cs dc t) = Inl e) \<and>
   (\<forall>e. NamespacesList cs = Inl e \<longrightarrow> (\<exists>e'. fst (ScanNamespaceResources cs dc t) = Inl e')) \<and>
   (\<forall>e. fst (ScanNamespaceResources cs dc t) = Inl e \<longrightarrow>
      filter is_fetch (snd (ScanNamespaceResources cs dc t)) = filter is_fetch t)"
    by (auto simp add: ScanNamespaceResources_fst GetNamespaceScopedResources_fst scan_result_def
          discovered_types_total_failure ScanNamespaceResources_abort_no_fetch split: sum.splits)
  have none: "\<forall>e namespaces.
      ServerPreferredNamespacedResources cs = ([], Some e) \<and> IsGroupDiscoveryFailedError e \<and>
      NamespacesList cs = Inr namespaces \<longrightarrow>
      fst (GetNamespaceScopedResources cs t) = Inr [] \<and>
      fst (ScanNamespaceResources cs dc t) = Inr []"
    by (auto simp add: ScanNamespaceResources_fst GetNamespaceScopedResources_fst
          scan_result_nothing_discovered discovered_types_def)
  from main none show ?thesis by blast
qed

text \<open>
  The example cluster with a discovery that is refused, with an enumeration of the
  namespaces that is forbidden, and with a discovery that every group fails.
\<close>

theorem ScanNamespaceResources_fatal_witness:
  "fst (ScanNamespaceResources
          (example_clientset
             \<lparr>ServerPreferredNamespacedResources := ([], Some (ErrorString ''connection refused''))\<rparr>)
          example_dynamic []) =
     Inl (ErrorString ''error fetching namespaced resources: connection refused'') \<and>
   fst (GetNamespaceScopedResources
          (example_clientset \<lparr>NamespacesList := Inl (ErrorString ''forbidden'')\<rparr>) []) =
     Inr [pods, bindings, replicasets] \<and>
   fst (ScanNamespaceResources
          (example_clientset \<lparr>NamespacesList := Inl (ErrorString ''forbidden'')\<rparr>)
          example_dynamic []) =
     Inl (ErrorString ''forbidden'') \<and>
   filter is_fetch
     (snd (ScanNamespaceResources
             (example_clientset \<lparr>NamespacesList := Inl (ErrorString ''forbidden'')\<rparr>)
             example_dynamic [])) = [] \<and>
   NamespacesList all_failed_clientset = Inr [''kube-system'', ''app''] \<and>
   fst (ScanNamespaceResources all_failed_clientset example_dynamic []) = Inr []"
  using ScanNamespaceResources_fatal
      [of "example_clientset
             \<lparr>ServerPreferredNamespacedResources := ([], Some (ErrorString ''connection refused''))\<rparr>"
          example_dynamic "[]"]
    ScanNamespaceResources_fatal
      [of "example_clientset \<lparr>NamespacesList := Inl (ErrorString ''forbidden'')\<rparr>"
          example_dynamic "[]"]
    ScanNamespaceResources_fatal
      [of all_failed_clientset example_dynamic "[]"]
    all_failed_answers
  by (simp add: GetNamespaceScopedResources_fst discovered_types_def example_clientset_def
        example_namespaced_catalog_def ParseGroupVersion_def WithResource_def pods_def
        bindings_def replicasets_def)

subsection \<open>The scan: which errors are skipped\<close>

text \<open>
  Claim C7. A failure of the get of one object and a failure of the listing of one
  resource type in one namespace are caught inside the traversal: the loop goes on with
  the remaining items and the results gathered so far, unchanged. No such failure makes
  \<^const>\<open>ScanNamespaceResources\<close> return an error: it returns one exactly when the
  discovery of the resource types or the enumeration of the namespaces returns one,
  whatever the dynamic client answers.
\<close>

theorem per_item_failures_are_skipped:
  "(\<forall>e. ResourceGet dc resource ns objectName = Inl e \<longrightarrow>
      fst (ScanNamespaceResources_objects dc ns resource (objectName # objects) results t) =
      fst (ScanNamespaceResources_objects dc ns resource objects results t)) \<and>
   (\<forall>e. ResourceList dc resource ns = Inl e \<longrightarrow>
      fst (ScanNamespaceResources_resources cs dc ns (resource # resources) results t) =
      fst (ScanNamespaceResources_resources cs dc ns resources results t)) \<and>
   ((\<exists>e. fst (ScanNamespaceResources cs dc t) = Inl e) \<longleftrightarrow>
      (\<exists>e. fst (GetNamespaceScopedResources cs t) = Inl e) \<or>
      (\<exists>e. fst (GetNamespaces cs t) = Inl e))"
proof (intro conjI allI impI)
  fix e
  assume "ResourceGet dc resource ns objectName = Inl e"
  then show "fst (ScanNamespaceResources_objects dc ns resource (objectName # objects) results t) =
      fst (ScanNamespaceResources_objects dc ns resource objects results t)"
    unfolding ScanNamespaceResources_objects_fst by (simp add: got_objects_Cons)
next
  fix e
  assume "ResourceList dc resource ns = Inl e"
  then show "fst (ScanNamespaceResources_resources cs dc ns (resource # resources) results t) =
      fst (ScanNamespaceResources_resources cs dc ns resources results t)"
    unfolding ScanNamespaceResources_resources_fst
    by (simp add: namespace_findings_def resource_findings_def fetched_objects_def)
next
  show "(\<exists>e. fst (ScanNamespaceResources cs dc t) = Inl e) \<longleftrightarrow>
      (\<exists>e. fst (GetNamespaceScopedResources cs t) = Inl e) \<or>
      (\<exists>e. fst (GetNamespaces cs t) = Inl e)"
    by (simp add: ScanNamespaceResources_fst GetNamespaceScopedResources_fst GetNamespaces_fst
          scan_result_error_iff)
qed

text \<open>
  In the example cluster the get of \<^verbatim>\<open>p0\<close> fails and every listing in
  \<^verbatim>\<open>kube-system\<close> fails; the scan still returns the two findings of namespace
  \<^verbatim>\<open>app\<close>.
\<close>

theorem per_item_failures_are_skipped_witness:
  "ResourceGet example_dynamic pods ''app'' ''p0'' = Inl (ErrorString ''not found'') \<and>
   fst (ScanNamespaceResources_objects example_dynamic ''app'' pods [''p0'', ''p1'', ''p2''] [] []) =
   fst (ScanNamespaceResources_objects example_dynamic ''app'' pods [''p1'', ''p2''] [] []) \<and>
   ResourceList example_dynamic pods ''kube-system'' = Inl (ErrorString ''forbidden'') \<and>
   fst (ScanNamespaceResources_resources example_clientset example_dynamic ''kube-system''
          [pods, bindings, replicasets] [] []) =
   fst (ScanNamespaceResources_resources example_clientset example_dynamic ''kube-system''
          [bindings, replicasets] [] []) \<and>
   fst (ScanNamespaceResources example_clientset example_dynamic []) =
     Inr [stuckFinalizerFinding pod_p1, invalidOwnerFinding replicaset_rs1 owner_d1]"
  using per_item_failures_are_skipped
      [of example_dynamic pods "''app''" "''p0''" "[''p1'', ''p2'']" "[]" "[]"
          example_clientset "[bindings, replicasets]"]
    per_item_failures_are_skipped
      [of example_dynamic pods "''kube-system''" "''p0''" "[]" "[]" "[]"
          example_clientset "[bindings, replicasets]"]
  by (simp add: example_gets example_lists ScanNamespaceResources_fst example_scan_result)

subsection \<open>The scan: the aggregate result\<close>

text \<open>
  Claim C8. When the discovery of the resource types and the enumeration of the namespaces
  succeed, the list returned by \<^const>\<open>ScanNamespaceResources\<close> is the concatenation of
  the findings of the two health checks for every fetched object, in the order of the
  traversal: namespace by namespace, in each namespace resource type by resource type
  among those that pass the list gate, in each type object name by object name as
  listed. For one object the stuck-finalizer finding precedes the owner findings.
\<close>

theorem ScanNamespaceResources_concatenates:
  assumes "fst (GetNamespaceScopedResources cs t) = Inr resources"
    and "fst (GetNamespaces cs t) = Inr namespaces"
  shows "fst (ScanNamespaceResources cs dc t) =
           Inr (concatenated_findings cs dc namespaces resources)"
  using assms
  by (simp add: ScanNamespaceResources_fst GetNamespaceScopedResources_fst GetNamespaces_fst
        scan_result_def concatenated_findings_nested)

text \<open>
  The example cluster: the traversal fetches \<^verbatim>\<open>p1\<close>, \<^verbatim>\<open>p2\<close> and
  \<^verbatim>\<open>rs1\<close>, in this order, and the scan returns their findings in this order.
\<close>

theorem ScanNamespaceResources_concatenates_witness:
  "fst (GetNamespaceScopedResources example_clientset []) = Inr [pods, bindings, replicasets] \<and>
   fst (GetNamespaces example_clientset []) = Inr [''kube-system'', ''app''] \<and>
   traversal example_clientset example_dynamic [''kube-system'', ''app'']
     [pods, bindings, replicasets] =
     [(''app'', pod_p1), (''app'', pod_p2), (''app'', replicaset_rs1)] \<and>
   fst (ScanNamespaceResources example_clientset example_dynamic []) =
     Inr (health_checks example_dynamic ''app'' pod_p1 @
          health_checks example_dynamic ''app'' pod_p2 @
          health_checks example_dynamic ''app'' replicaset_rs1) \<and>
   fst (ScanNamespaceResources example_clientset example_dynamic []) =
     Inr [stuckFinalizerFinding pod_p1, invalidOwnerFinding replicaset_rs1 owner_d1]"
  using ScanNamespaceResources_concatenates
      [of example_clientset "[]" "[pods, bindings, replicasets]" "[''kube-system'', ''app'']"
          example_dynamic]
  by (simp add: GetNamespaceScopedResources_fst GetNamespaces_fst example_discovered
        example_namespaces concatenated_findings_def example_traversal health_checks_eq
        example_object_findings)

text \<open>
  Claim C9. Two scans of a cluster that gives the same answers return the same findings,
  field for field and in the same order, hence the same multiset of findings: the value
  returned does not depend on the trace of effects the scan starts from, in particular
  not on the trace a first scan leaves behind.
\<close>

theorem ScanNamespaceResources_repeatable:
  "fst (ScanNamespaceResources cs dc t') = fst (ScanNamespaceResources cs dc t) \<and>
   fst (ScanNamespaceResources cs dc (snd (ScanNamespaceResources cs dc t))) =
     fst (ScanNamespaceResources cs dc t) \<and>
   findings_mset (fst (ScanNamespaceResources cs dc (snd (ScanNamespaceResources cs dc t)))) =
     findings_mset (fst (ScanNamespaceResources cs dc t))"
  by (simp add: ScanNamespaceResources_fst)

text \<open>The example cluster scanned twice in a row.\<close>

theorem ScanNamespaceResources_repeatable_witness:
  "findings_mset
     (fst (ScanNamespaceResources example_clientset example_dynamic
             (snd (ScanNamespaceResources example_clientset example_dynamic [])))) =
   {#stuckFinalizerFinding pod_p1, invalidOwnerFinding replicaset_rs1 owner_d1#} \<and>
   findings_mset (fst (ScanNamespaceResources example_clientset example_dynamic [])) =
   {#stuckFinalizerFinding pod_p1, invalidOwnerFinding replicaset_rs1 owner_d1#}"
  using ScanNamespaceResources_repeatable [of example_clientset example_dynamic "[]" "[]"]
  by (simp add: ScanNamespaceResources_fst example_scan_result findings_mset_def)

subsection \<open>The fields of a finding\<close>

text \<open>
  Claim C10. Every finding of either health check takes its namespace and its name from
  the metadata of the checked object and its resource field from the kind of the object;
  its issue is \<^verbatim>\<open>Stuck finalizer\<close> for the first check and
  \<^verbatim>\<open>Invalid ownerReference\<close> for the second. Every finding a scan returns has
  one of these two issues and carries the namespace, name and kind of an object the
  scan fetched; the resource name under which the object was listed does not enter it.
\<close>

theorem findings_name_the_checked_object:
  "(\<forall>r \<in> set (fst (CheckStuckFinalizers obj t)).
      Namespace r = GetNamespace obj \<and> Name r = GetName obj \<and> Resource r = GetKind obj \<and>
      Issue r = ''Stuck finalizer'') \<and>
   (\<forall>r \<in> set (fst (CheckInvalidOwnerReferences dc obj ns t)).
      Namespace r = GetNamespace obj \<and> Name r = GetName obj \<and> Resource r = GetKind obj \<and>
      Issue r = ''Invalid ownerReference'') \<and>
   (\<forall>results. fst (ScanNamespaceResources cs dc t) = Inr results \<longrightarrow>
      (\<forall>r \<in> set results.
         (Issue r = ''Stuck finalizer'' \<or> Issue r = ''Invalid ownerReference'') \<and>
         (\<exists>namespace resource fetched. fetched \<in> set (fetched_objects dc namespace resource) \<and>
            Namespace r = GetNamespace fetched \<and> Name r = GetName fetched \<and>
            Resource r = GetKind fetched)))"
proof (intro conjI ballI allI impI)
  fix r
  assume "r \<in> set (fst (CheckStuckFinalizers obj t))"
  then have r: "r \<in> set (stuck_finalizer_findings obj)"
    by (simp add: CheckStuckFinalizers_fst)
  then show "Namespace r = GetNamespace obj" "Name r = GetName obj" "Resource r = GetKind obj"
    "Issue r = ''Stuck finalizer''"
    by (auto simp add: stuck_finalizer_findings_def stuckFinalizerFinding_def split: if_splits)
next
  fix r
  assume "r \<in> set (fst (CheckInvalidOwnerReferences dc obj ns t))"
  then have r: "r \<in> set (invalid_owner_findings dc obj ns)"
    by (simp add: CheckInvalidOwnerReferences_fst)
  then show "Namespace r = GetNamespace obj" "Name r = GetName obj" "Resource r = GetKind obj"
    "Issue r = ''Invalid ownerReference''"
    by (auto simp add: invalid_owner_findings_def invalidOwnerFinding_def)
next
  fix results r
  assume "fst (ScanNamespaceResources cs dc t) = Inr results" and "r \<in> set results"
  then obtain namespace resource fetched where
    f: "fetched \<in> set (fetched_objects dc namespace resource)"
       "r \<in> set (object_findings dc namespace fetched)"
    using scan_result_origin [of cs dc results r] by (auto simp add: ScanNamespaceResources_fst)
  from f(2) show "Issue r = ''Stuck finalizer'' \<or> Issue r = ''Invalid ownerReference''"
    using object_findings_fields by blast
  from f show "\<exists>namespace resource fetched. fetched \<in> set (fetched_objects dc namespace resource) \<and>
            Namespace r = GetNamespace fetched \<and> Name r = GetName fetched \<and>
            Resource r = GetKind fetched"
    using object_findings_fields by blast
qed

text \<open>
  The pod \<^verbatim>\<open>p1\<close> is listed under the resource \<^verbatim>\<open>pods\<close> and its finding
  carries the kind \<^verbatim>\<open>Pod\<close>; the replica set \<^verbatim>\<open>rs1\<close> is listed under
  \<^verbatim>\<open>replicasets\<close> and its finding carries \<^verbatim>\<open>ReplicaSet\<close>.
\<close>

theorem findings_name_the_checked_object_witness:
  "fst (CheckStuckFinalizers pod_p1 []) = [stuckFinalizerFinding pod_p1] \<and>
   Namespace (stuckFinalizerFinding pod_p1) = ''app'' \<and>
   Name (stuckFinalizerFinding pod_p1) = ''p1'' \<and>
   Resource (stuckFinalizerFinding pod_p1) = ''Pod'' \<and>
   gvr_Resource pods = ''pods'' \<and>
   Issue (stuckFinalizerFinding pod_p1) = ''Stuck finalizer'' \<and>
   fst (CheckInvalidOwnerReferences example_dynamic replicaset_rs1 ''app'' []) =
     [invalidOwnerFinding replicaset_rs1 owner_d1] \<and>
   Namespace (invalidOwnerFinding replicaset_rs1 owner_d1) = ''app'' \<and>
   Name (invalidOwnerFinding replicaset_rs1 owner_d1) = ''rs1'' \<and>
   Resource (invalidOwnerFinding replicaset_rs1 owner_d1) = ''ReplicaSet'' \<and>
   Issue (invalidOwnerFinding replicaset_rs1 owner_d1) = ''Invalid ownerReference'' \<and>
   fst (ScanNamespaceResources example_clientset example_dynamic []) =
     Inr [stuckFinalizerFinding pod_p1, invalidOwnerFinding replicaset_rs1 owner_d1] \<and>
   pod_p1 \<in> set (fetched_objects example_dynamic ''app'' pods) \<and>
   replicaset_rs1 \<in> set (fetched_objects example_dynamic ''app'' replicasets)"
proof -
  have checks:
    "fst (CheckStuckFinalizers pod_p1 []) = [stuckFinalizerFinding pod_p1]"
    "fst (CheckInvalidOwnerReferences example_dynamic replicaset_rs1 ''app'' []) =
       [invalidOwnerFinding replicaset_rs1 owner_d1]"
    using example_object_findings
    by (simp_all add: CheckStuckFinalizers_fst CheckInvalidOwnerReferences_fst
          object_findings_def stuck_finalizer_findings_def invalid_owner_findings_def
          example_owner_resolves pod_p1_def replicaset_rs1_def)
  have fields:
    "Namespace (stuckFinalizerFinding pod_p1) = ''app''"
    "Name (stuckFinalizerFinding pod_p1) = ''p1''"
    "Resource (stuckFinalizerFinding pod_p1) = ''Pod''"
    "gvr_Resource pods = ''pods''"
    "Issue (stuckFinalizerFinding pod_p1) = ''Stuck finalizer''"
    "Namespace (invalidOwnerFinding replicaset_rs1 owner_d1) = ''app''"
    "Name (invalidOwnerFinding replicaset_rs1 owner_d1) = ''rs1''"
    "Resource (invalidOwnerFinding replicaset_rs1 owner_d1) = ''ReplicaSet''"
    "Issue (invalidOwnerFinding replicaset_rs1 owner_d1) = ''Invalid ownerReference''"
    by (simp_all add: stuckFinalizerFinding_def invalidOwnerFinding_def pod_p1_def
          replicaset_rs1_def pods_def)
  have scan:
    "fst (ScanNamespaceResources example_clientset example_dynamic []) =
       Inr [stuckFinalizerFinding pod_p1, invalidOwnerFinding replicaset_rs1 owner_d1]"
    "pod_p1 \<in> set (fetched_objects example_dynamic ''app'' pods)"
    "replicaset_rs1 \<in> set (fetched_objects example_dynamic ''app'' replicasets)"
    by (simp_all add: ScanNamespaceResources_fst example_scan_result example_fetched)
  show ?thesis
    using findings_name_the_checked_object
        [of pod_p1 "[]" example_dynamic "''app''" example_clientset]
      findings_name_the_checked_object
        [of replicaset_rs1 "[]" example_dynamic "''app''" example_clientset]
      checks fields scan
    by simp
qed

end
